theory Spec2Isabelle
  imports Complex_Main "HOL-Library.Char_ord" "HOL-Library.List_Lexorder"
begin

section \<open>Values, exceptions and tables\<close>

text \<open>
  The dashboard of \<^verbatim>\<open>src/app.py\<close> fetches JSON records, puts them into a pandas
  table, cleans the table, filters it by the lines chosen in the sidebar and renders one
  of four pages.

  A cell of a table holds what Python holds there: a value parsed from JSON (a truth
  value, an integer, a float, a text, a list, an object) or a missing value. \<open>Null\<close>
  stands for both missing values of pandas, Python's \<open>None\<close> and the float \<open>NaN\<close>:
  pandas turns one into the other when it stores a column, it treats them alike in
  \<^verbatim>\<open>isna\<close>, \<^verbatim>\<open>dropna\<close> and \<^verbatim>\<open>fillna\<close>, and the program tells them apart
  nowhere else. The type \<open>'f\<close> of floats is a parameter: the program moves floats from
  one place to another and never computes with them. Texts are byte strings (UTF-8),
  whose lexicographic order is Python's order of texts by code point. An object is the
  list of its members in insertion order; looking a key up reads its first entry.
\<close>

datatype 'f cell =
    Null
  | Bool bool
  | PyInt int
  | PyFloat 'f
  | Str string
  | Lst "'f cell list"
  | Dict "(string \<times> 'f cell) list"

text \<open>
  The exceptions the program can meet; \<open>OtherError\<close> carries the text of any other
  one (a transport failure, a body that is no JSON). \<open>NotModelled\<close> is no exception of
  Python: it marks the two places, named where they occur, at which this development does
  not say what pandas does. No theorem below rests on it.
\<close>

datatype error =
    KeyError "string list"
  | TypeError
  | AttributeError
  | OtherError string
  | NotModelled

text \<open>
  What pandas does and the source does not determine. No version of pandas is fixed by
  the repository, and how pandas stores a column depends on everything the column holds;
  these behaviours are parameters, and every theorem holds for all their values.
  \<^item> \<open>keeps_missing\<close>: \<^verbatim>\<open>astype(str)\<close> leaves a missing value missing (pandas 3);
    otherwise it turns it, like every other element, into its text (pandas 1 and 2).
  \<^item> \<open>str_of i j x\<close>: the text Python's \<open>str\<close> gives for the element \<open>x\<close> that is not
    a text, stored in the row of index label \<open>i\<close> and the column of position \<open>j\<close>.
  \<^item> \<open>float64 n\<close>: the float an integer becomes in a column stored as float64.
  \<^item> \<open>float_column c\<close>: the constructor stores the column \<open>c\<close> as float64 (it does
    when the column holds only numbers and one of them is a float, or a value is missing).
  \<^item> \<open>float_series c\<close>: the same for the series that \<^verbatim>\<open>apply\<close> makes for the new
    column \<open>c\<close>.
\<close>

record 'f pandas =
  keeps_missing :: bool
  str_of :: "nat \<Rightarrow> nat \<Rightarrow> 'f cell \<Rightarrow> string"
  float64 :: "int \<Rightarrow> 'f"
  float_column :: "string \<Rightarrow> bool"
  float_series :: "string \<Rightarrow> bool"

text \<open>
  A value as a column holds it: in a float64 column an integer is a float; every other
  value is kept (a float is a float64 already; lists, objects, texts and truth values
  are only found in columns that keep Python's objects).
\<close>

definition stored :: "'f pandas \<Rightarrow> bool \<Rightarrow> 'f cell \<Rightarrow> 'f cell" where
  "stored pd as_float x =
     (case x of PyInt n \<Rightarrow> if as_float then PyFloat (float64 pd n) else PyInt n | _ \<Rightarrow> x)"

text \<open>
  A table has a header (the column labels, in order) and rows; a row is its index label
  and its cells, one per column, in the order of the header.
\<close>

record 'f dataframe =
  columns :: "string list"
  rows :: "(nat \<times> 'f cell list) list"

text \<open>\<^verbatim>\<open>df.empty\<close>: one of the two axes has length zero.\<close>

definition empty_df :: "'f dataframe \<Rightarrow> bool" where
  "empty_df df = (columns df = [] \<or> rows df = [])"

text \<open>\<^verbatim>\<open>pd.DataFrame()\<close>\<close>

definition no_frame :: "'f dataframe" where
  "no_frame = \<lparr>columns = [], rows = []\<rparr>"

text \<open>Distinct elements in the order of their first occurrence (\<^verbatim>\<open>Series.unique\<close>).\<close>

definition unique :: "'a list \<Rightarrow> 'a list" where
  "unique xs = rev (remdups (rev xs))"

text \<open>
  \<^verbatim>\<open>pd.DataFrame(records)\<close> for a list of objects: the header is the union of the
  keys in the order of their first appearance, the rows are numbered from 0, and a field
  a record lacks is missing.
\<close>

definition field :: "(string \<times> 'f cell) list \<Rightarrow> string \<Rightarrow> 'f cell" where
  "field kv c = (case map_of kv c of Some v \<Rightarrow> v | None \<Rightarrow> Null)"

definition DataFrame :: "'f pandas \<Rightarrow> (string \<times> 'f cell) list list \<Rightarrow> 'f dataframe" where
  "DataFrame pd recs =
     (let cols = unique (concat (map (map fst) recs))
      in \<lparr>columns = cols,
          rows = map (\<lambda>(i, kv). (i, map (\<lambda>c. stored pd (float_column pd c) (field kv c)) cols))
                   (enumerate 0 recs)\<rparr>)"

text \<open>\<^verbatim>\<open>pd.isna\<close> on a cell.\<close>

fun isna :: "'f cell \<Rightarrow> bool" where
  "isna Null = True"
| "isna _ = False"

text \<open>The cell of a row under a label (the first column so labelled).\<close>

definition cell_at :: "string list \<Rightarrow> 'f cell list \<Rightarrow> string \<Rightarrow> 'f cell option" where
  "cell_at cols r c = map_of (zip cols r) c"

definition cell_value :: "string list \<Rightarrow> 'f cell list \<Rightarrow> string \<Rightarrow> 'f cell" where
  "cell_value cols r c = (case cell_at cols r c of Some v \<Rightarrow> v | None \<Rightarrow> Null)"

text \<open>\<^verbatim>\<open>df[c]\<close>: the column as a series, or \<open>KeyError\<close> when no column has the label.\<close>

definition getitem :: "'f dataframe \<Rightarrow> string \<Rightarrow> error + 'f cell list" where
  "getitem df c =
     (if c \<in> set (columns df)
      then Inr (map (\<lambda>(i, r). cell_value (columns df) r c) (rows df))
      else Inl (KeyError [c]))"

text \<open>
  \<^verbatim>\<open>series.apply(f)\<close>, making the series of the new column \<open>c\<close>: \<open>f\<close> is applied to
  every element and pandas chooses how to store the results.
\<close>

definition apply_series ::
  "'f pandas \<Rightarrow> string \<Rightarrow> ('f cell \<Rightarrow> 'f cell) \<Rightarrow> 'f cell list \<Rightarrow> 'f cell list" where
  "apply_series pd c f col = map (\<lambda>x. stored pd (float_series pd c) (f x)) col"

text \<open>
  \<^verbatim>\<open>df[c] = series\<close>, the series being aligned with the rows of \<open>df\<close>: an existing
  column is overwritten in place, a new one is appended to the header.
\<close>

definition put_label :: "string \<Rightarrow> string list \<Rightarrow> string list" where
  "put_label c cols = (if c \<in> set cols then cols else cols @ [c])"

definition put_cell :: "string \<Rightarrow> 'f cell \<Rightarrow> string list \<Rightarrow> 'f cell list \<Rightarrow> 'f cell list" where
  "put_cell c v cols r =
     (if c \<in> set cols then map2 (\<lambda>k x. if k = c then v else x) cols r else r @ [v])"

definition setitem :: "string \<Rightarrow> 'f cell list \<Rightarrow> 'f dataframe \<Rightarrow> 'f dataframe" where
  "setitem c vs df =
     \<lparr>columns = put_label c (columns df),
      rows = map2 (\<lambda>(i, r) v. (i, put_cell c v (columns df) r)) (rows df) vs\<rparr>"

text \<open>\<^verbatim>\<open>df[c] = value\<close>: the scalar is broadcast to every row.\<close>

definition setitem_scalar :: "string \<Rightarrow> 'f cell \<Rightarrow> 'f dataframe \<Rightarrow> 'f dataframe" where
  "setitem_scalar c v df = setitem c (replicate (length (rows df)) v) df"

text \<open>
  \<^verbatim>\<open>df[c] = df[c].method(...)\<close> for an element-wise method: the cells under the label
  \<open>c\<close> are replaced by their images. (When several columns carry the label, \<open>df[c]\<close> is
  a sub-table and pandas stores the result back column by column.) The method is told
  the index label of the row and the position of the column.
\<close>

definition update_cells ::
  "string \<Rightarrow> (nat \<Rightarrow> 'f cell \<Rightarrow> 'f cell) \<Rightarrow> string list \<Rightarrow> 'f cell list \<Rightarrow> 'f cell list" where
  "update_cells c f cols r =
     map2 (\<lambda>(j, k) x. if k = c then f j x else x) (enumerate 0 cols) r"

definition update_column ::
  "string \<Rightarrow> (nat \<Rightarrow> nat \<Rightarrow> 'f cell \<Rightarrow> 'f cell) \<Rightarrow> 'f dataframe \<Rightarrow> 'f dataframe" where
  "update_column c f df =
     df\<lparr>rows := map (\<lambda>(i, r). (i, update_cells c (f i) (columns df) r)) (rows df)\<rparr>"

text \<open>
  \<^verbatim>\<open>df.dropna(subset=labels)\<close>: \<open>KeyError\<close> with the labels that are no columns;
  otherwise the rows that have no missing value under the labels, with their index labels.
\<close>

definition complete_row :: "string list \<Rightarrow> string list \<Rightarrow> 'f cell list \<Rightarrow> bool" where
  "complete_row labels cols r =
     list_all (\<lambda>x. \<not> isna x) (map snd (filter (\<lambda>(k, x). k \<in> set labels) (zip cols r)))"

definition dropna :: "string list \<Rightarrow> 'f dataframe \<Rightarrow> error + 'f dataframe" where
  "dropna labels df =
     (let missing = filter (\<lambda>c. c \<notin> set (columns df)) labels
      in if missing \<noteq> [] then Inl (KeyError missing)
         else Inr (df\<lparr>rows := filter (\<lambda>(i, r). complete_row labels (columns df) r) (rows df)\<rparr>))"

text \<open>\<^verbatim>\<open>df.rename(columns=mapping)\<close>: labels outside the mapping pass through.\<close>

definition renamed :: "(string \<times> string) list \<Rightarrow> string \<Rightarrow> string" where
  "renamed m c = (case map_of m c of Some c' \<Rightarrow> c' | None \<Rightarrow> c)"

definition rename :: "(string \<times> string) list \<Rightarrow> 'f dataframe \<Rightarrow> 'f dataframe" where
  "rename m df = df\<lparr>columns := map (renamed m) (columns df)\<rparr>"

text \<open>\<^verbatim>\<open>Series.fillna(value)\<close>, on one cell.\<close>

definition fillna :: "'f cell \<Rightarrow> 'f cell \<Rightarrow> 'f cell" where
  "fillna v x = (if isna x then v else x)"

text \<open>
  \<^verbatim>\<open>Series.astype(str)\<close>, on the cell of row \<open>i\<close> and column \<open>j\<close>. A text stays as
  it is. A missing value stays missing in pandas 3 and becomes its text (\<open>nan\<close>,
  \<open>None\<close>) before. Any other element becomes its text.
\<close>

definition astype_str :: "'f pandas \<Rightarrow> nat \<Rightarrow> nat \<Rightarrow> 'f cell \<Rightarrow> 'f cell" where
  "astype_str pd i j x =
     (case x of
        Str s \<Rightarrow> Str s
      | _ \<Rightarrow> if keeps_missing pd \<and> isna x then Null else Str (str_of pd i j x))"

section \<open>The cleaner\<close>

text \<open>
  The two lambdas of lines 47 and 48:
  \<^verbatim>\<open>lambda x: x[0] if isinstance(x, list) and len(x)==2 else None\<close> and the same with
  \<open>x[1]\<close>.
\<close>

fun lat_of :: "'f cell \<Rightarrow> 'f cell" where
  "lat_of (Lst [a, b]) = a"
| "lat_of _ = Null"

fun lon_of :: "'f cell \<Rightarrow> 'f cell" where
  "lon_of (Lst [a, b]) = b"
| "lon_of _ = Null"

text \<open>
  Lines 44 to 50. The two assignments stand in a \<^verbatim>\<open>try\<close> whose handler is
  \<^verbatim>\<open>pass\<close>: an exception leaves the table as it is at that moment.
\<close>

definition coordonnees :: "'f pandas \<Rightarrow> 'f dataframe \<Rightarrow> 'f dataframe" where
  "coordonnees pd df =
     (case getitem df ''coord_geo'' of
        Inl e \<Rightarrow> df
      | Inr geo \<Rightarrow>
          (let df1 = setitem ''lat'' (apply_series pd ''lat'' lat_of geo) df
           in case getitem df1 ''coord_geo'' of
                Inl e \<Rightarrow> df1
              | Inr geo1 \<Rightarrow> setitem ''lon'' (apply_series pd ''lon'' lon_of geo1) df1))"

text \<open>The renaming of line 57; \<open>Accessibilit\<close> ends in the two bytes of e acute.\<close>

definition mapping :: "(string \<times> string) list" where
  "mapping =
     [(''ligne'', ''Ligne''),
      (''station'', ''Station''),
      (''tarif_gratuit_payant'', ''Tarif''),
      (''acces_bouton_poussoir'', ''Accessibilit'' @ [CHR 0xC3, CHR 0xA9]),
      (''en_zone_controlee_ou_hors_zone_controlee_station'', ''Zone'')]"

text \<open>Lines 67 to 78.\<close>

definition standardisation :: "'f pandas \<Rightarrow> 'f dataframe \<Rightarrow> 'f dataframe" where
  "standardisation pd df =
     (let df1 = (if ''Tarif'' \<in> set (columns df)
                 then update_column ''Tarif'' (\<lambda>i j. fillna (Str ''Inconnu'')) df
                 else setitem_scalar ''Tarif'' (Str ''Inconnu'') df);
          df2 = (if ''Ligne'' \<in> set (columns df1)
                 then update_column ''Ligne'' (astype_str pd) df1
                 else setitem_scalar ''Ligne'' (Str ''Inconnue'') df1)
      in setitem_scalar ''color'' (Str ''#FF0000'') df2)"

text \<open>
  \<^verbatim>\<open>clean_data(df)\<close>, lines 32 to 80, on the value of the table. The result is the
  cleaned table, or the exception that \<^verbatim>\<open>dropna\<close> raises.
\<close>

definition clean_data :: "'f pandas \<Rightarrow> 'f dataframe \<Rightarrow> error + 'f dataframe" where
  "clean_data pd df =
     (if empty_df df then Inr df
      else
        (let df1 = (if ''coord_geo'' \<in> set (columns df) then coordonnees pd df else df)
         in case dropna [''lat'', ''lon''] df1 of
              Inl e \<Rightarrow> Inl e
            | Inr df2 \<Rightarrow> Inr (standardisation pd (rename mapping df2))))"

section \<open>The same cleaner on objects\<close>

text \<open>
  In Python a table is an object and \<^verbatim>\<open>clean_data\<close> gets a reference to it. The
  store is the list of the tables allocated so far, a reference is a position in it.
  \<^verbatim>\<open>df.copy()\<close>, \<^verbatim>\<open>dropna\<close> and \<^verbatim>\<open>rename\<close> allocate a new table; the
  assignments \<^verbatim>\<open>df[c] = ...\<close> write into the table the variable \<open>df\<close> refers to at
  that line. The result is the reference returned (or the exception) and the store.
  The cells are not copied; the function never writes into a cell.
\<close>

type_synonym 'f store = "'f dataframe list"

definition alloc :: "'f dataframe \<Rightarrow> 'f store \<Rightarrow> nat \<times> 'f store" where
  "alloc df h = (length h, h @ [df])"

definition in_place :: "nat \<Rightarrow> ('f dataframe \<Rightarrow> 'f dataframe) \<Rightarrow> 'f store \<Rightarrow> 'f store" where
  "in_place p f h = h[p := f (h ! p)]"

definition clean_data_obj ::
  "'f pandas \<Rightarrow> nat \<Rightarrow> 'f store \<Rightarrow> (error + nat) \<times> 'f store" where
  "clean_data_obj pd p h =
     (if empty_df (h ! p) then (Inr p, h)
      else
        (let (p1, h1) = alloc (h ! p) h;
             h2 = (if ''coord_geo'' \<in> set (columns (h1 ! p1))
                   then in_place p1 (coordonnees pd) h1 else h1)
         in case dropna [''lat'', ''lon''] (h2 ! p1) of
              Inl e \<Rightarrow> (Inl e, h2)
            | Inr dropped \<Rightarrow>
                (let (p2, h3) = alloc dropped h2;
                     (p3, h4) = alloc (rename mapping (h3 ! p2)) h3
                 in (Inr p3, in_place p3 (standardisation pd) h4))))"

section \<open>The fetcher\<close>

text \<open>
  \<^verbatim>\<open>requests.get(url)\<close> either raises or returns a response, which has a status code
  and whose \<^verbatim>\<open>json()\<close> either raises or returns the parsed body. What the fetcher
  shows with \<^verbatim>\<open>st.error\<close> is returned beside the table.
\<close>

record 'f response =
  status_code :: int
  json :: "error + 'f cell"

datatype message = Erreur_connexion | Erreur_technique error

definition then_do :: "error + 'a \<Rightarrow> ('a \<Rightarrow> error + 'b) \<Rightarrow> error + 'b" where
  "then_do m f = (case m of Inl e \<Rightarrow> Inl e | Inr x \<Rightarrow> f x)"

text \<open>\<^verbatim>\<open>data.get('records', [])\<close>: only an object has \<^verbatim>\<open>get\<close>.\<close>

fun get_records :: "'f cell \<Rightarrow> error + 'f cell" where
  "get_records (Dict kv) = Inr (case map_of kv ''records'' of Some v \<Rightarrow> v | None \<Rightarrow> Lst [])"
| "get_records _ = Inl AttributeError"

text \<open>\<^verbatim>\<open>r['fields']\<close>: a missing key of an object, or a value that has no text keys.\<close>

fun fields_of :: "'f cell \<Rightarrow> error + 'f cell" where
  "fields_of (Dict kv) =
     (case map_of kv ''fields'' of Some v \<Rightarrow> Inr v | None \<Rightarrow> Inl (KeyError [''fields'']))"
| "fields_of _ = Inl TypeError"

text \<open>A list comprehension stops at the first element that raises.\<close>

fun comprehension :: "('a \<Rightarrow> error + 'b) \<Rightarrow> 'a list \<Rightarrow> error + 'b list" where
  "comprehension f [] = Inr []"
| "comprehension f (x # xs) =
     then_do (f x) (\<lambda>y. then_do (comprehension f xs) (\<lambda>ys. Inr (y # ys)))"

text \<open>
  \<^verbatim>\<open>[r['fields'] for r in records]\<close>. A loop over an object visits its keys and a
  loop over a text its characters, which are texts: the first of them raises. Any other
  value cannot be iterated.
\<close>

fun clean_records :: "'f cell \<Rightarrow> error + 'f cell list" where
  "clean_records (Lst rs) = comprehension fields_of rs"
| "clean_records (Dict kv) = (if kv = [] then Inr [] else Inl TypeError)"
| "clean_records (Str s) = (if s = [] then Inr [] else Inl TypeError)"
| "clean_records _ = Inl TypeError"

text \<open>
  \<^verbatim>\<open>pd.DataFrame(clean_records)\<close>. For a list of objects it is \<open>DataFrame\<close>. What
  pandas makes of a list with an entry that is no object (a table with positional labels,
  or an exception) is the parameter \<open>other\<close>.
\<close>

fun members :: "'f cell \<Rightarrow> (string \<times> 'f cell) list option" where
  "members (Dict kv) = Some kv"
| "members _ = None"

definition DataFrame_of ::
  "'f pandas \<Rightarrow> ('f cell list \<Rightarrow> error + 'f dataframe) \<Rightarrow> 'f cell list
     \<Rightarrow> error + 'f dataframe" where
  "DataFrame_of pd other xs =
     (case those (map members xs) of
        Some recs \<Rightarrow> Inr (DataFrame pd recs)
      | None \<Rightarrow> other xs)"

text \<open>The body of the \<^verbatim>\<open>try\<close>, lines 17 to 27, and the function with its handler.\<close>

definition try_load ::
  "'f pandas \<Rightarrow> ('f cell list \<Rightarrow> error + 'f dataframe) \<Rightarrow> error + 'f response
     \<Rightarrow> error + message list \<times> 'f dataframe" where
  "try_load pd other get =
     then_do get (\<lambda>response.
       if status_code response = 200
       then then_do (json response) (\<lambda>data.
            then_do (get_records data) (\<lambda>records.
            then_do (clean_records records) (\<lambda>cleaned.
            then_do (DataFrame_of pd other cleaned) (\<lambda>df. Inr ([], df)))))
       else Inr ([Erreur_connexion], no_frame))"

definition load_data_from_api ::
  "'f pandas \<Rightarrow> ('f cell list \<Rightarrow> error + 'f dataframe) \<Rightarrow> error + 'f response
     \<Rightarrow> message list \<times> 'f dataframe" where
  "load_data_from_api pd other get =
     (case try_load pd other get of
        Inl e \<Rightarrow> ([Erreur_technique e], no_frame)
      | Inr shown_and_table \<Rightarrow> shown_and_table)"

section \<open>The sidebar filter\<close>

fun is_text :: "'f cell \<Rightarrow> bool" where
  "is_text (Str s) = True"
| "is_text _ = False"

fun text_of :: "'f cell \<Rightarrow> string" where
  "text_of (Str s) = s"
| "text_of _ = []"

text \<open>
  Line 95, \<^verbatim>\<open>sorted(df['Ligne'].unique())\<close>. When two columns are labelled
  \<open>Ligne\<close>, \<^verbatim>\<open>df['Ligne']\<close> is a table, which has no \<^verbatim>\<open>unique\<close>. Texts are
  sorted in their order. A column that mixes texts with other cells raises
  \<open>TypeError\<close> (hashing a list in \<^verbatim>\<open>unique\<close>, or comparing a text with another
  value in \<^verbatim>\<open>sorted\<close>). A column without any text is not modelled: Python's order
  and equality of numbers, truth values and lists are not part of this development.
\<close>

definition lignes_dispo :: "'f dataframe \<Rightarrow> error + 'f cell list" where
  "lignes_dispo df =
     (if 1 < count_list (columns df) ''Ligne'' then Inl AttributeError
      else then_do (getitem df ''Ligne'') (\<lambda>col.
        if list_all is_text col then Inr (map Str (sort (unique (map text_of col))))
        else if list_ex is_text col then Inl TypeError
        else Inl NotModelled))"

text \<open>\<^verbatim>\<open>df[mask]\<close>: the rows at which the mask holds, with their index labels.\<close>

definition boolean_index :: "'f dataframe \<Rightarrow> bool list \<Rightarrow> 'f dataframe" where
  "boolean_index df flags = df\<lparr>rows := map fst (filter snd (zip (rows df) flags))\<rparr>"

definition isin :: "'f cell list \<Rightarrow> 'f cell list \<Rightarrow> bool list" where
  "isin col values = map (\<lambda>x. x \<in> set values) col"

text \<open>
  Lines 94 to 102. \<open>multiselect\<close> is the user: it maps the options offered to the list
  of those chosen (by default all of them).
\<close>

definition df_filtre ::
  "('f cell list \<Rightarrow> 'f cell list) \<Rightarrow> 'f dataframe \<Rightarrow> error + 'f dataframe" where
  "df_filtre multiselect df =
     (if \<not> empty_df df \<and> ''Ligne'' \<in> set (columns df)
      then then_do (lignes_dispo df) (\<lambda>dispo.
             let choix_lignes = multiselect dispo
             in if choix_lignes \<noteq> []
                then then_do (getitem df ''Ligne'') (\<lambda>col.
                       Inr (boolean_index df (isin col choix_lignes)))
                else Inr df)
      else Inr df)"

section \<open>The Home page\<close>

text \<open>
  What the page \<open>Accueil\<close> shows, lines 107 to 122, in order, and the exception that
  ends it, if any. The charting library is not modelled: a chart is named by the table
  it is given. Texts are UTF-8 bytes.
\<close>

datatype 'f element =
    Title string
  | Success string
  | Metric string nat
  | Markdown string
  | Subheader string
  | Pie_chart "'f dataframe" string

definition titre_accueil :: string where
  "titre_accueil =
     [CHR 0xF0, CHR 0x9F, CHR 0x9A, CHR 0xBE] @ '' Dashboard RATP (API En direct)''"

definition message_succes :: string where
  "message_succes =
     [CHR 0xE2, CHR 0x9C, CHR 0x85] @ '' Donn'' @ [CHR 0xC3, CHR 0xA9] @ ''es r''
     @ [CHR 0xC3, CHR 0xA9] @ ''cup'' @ [CHR 0xC3, CHR 0xA9] @ ''r'' @ [CHR 0xC3, CHR 0xA9]
     @ ''es avec succ'' @ [CHR 0xC3, CHR 0xA8] @ ''s depuis l'' @ [CHR 0x27]
     @ ''API officielle !''"

definition titre_repartition :: string where
  "titre_repartition =
     [CHR 0xF0, CHR 0x9F, CHR 0x92, CHR 0xB0] @ '' R'' @ [CHR 0xC3, CHR 0xA9]
     @ ''partition Gratuit / Payant''"

text \<open>
  \<^verbatim>\<open>len(df_filtre[df_filtre['Tarif'] == 'Gratuit'])\<close>. With two columns labelled
  \<open>Tarif\<close> the comparison yields a table and the selection is not modelled.
\<close>

definition gratuit :: "'f dataframe \<Rightarrow> error + nat" where
  "gratuit dff =
     (if 1 < count_list (columns dff) ''Tarif'' then Inl NotModelled
      else then_do (getitem dff ''Tarif'') (\<lambda>col.
        Inr (length (rows (boolean_index dff (map (\<lambda>x. x = Str ''Gratuit'') col))))))"

definition accueil :: "'f dataframe \<Rightarrow> 'f dataframe \<Rightarrow> 'f element list \<times> error option" where
  "accueil df dff =
     (let banner = [Title titre_accueil, Success message_succes]
      in if \<not> empty_df df
         then (let stations = banner @ [Metric (''Stations trouv'' @ [CHR 0xC3, CHR 0xA9] @ ''es'')
                                            (length (rows dff))]
               in case gratuit dff of
                    Inl e \<Rightarrow> (stations, Some e)
                  | Inr n \<Rightarrow>
                      (stations @
                         [Metric ''Toilettes Gratuites'' n,
                          Markdown ''---'',
                          Subheader titre_repartition,
                          Pie_chart dff ''Tarif''],
                       None))
         else (banner, None))"

section \<open>A pandas for the examples\<close>

text \<open>
  The theorems hold for every behaviour of pandas that the record \<open>pandas\<close> can
  describe; an example needs one of them. In a float64 column an integer becomes the
  nearest double, a tie going to the even mantissa of 53 bits. \<open>excess a\<close> is the number
  of low bits of \<open>a\<close> that do not fit into the mantissa, and \<open>nearest_double n\<close> is the
  integer that the double denotes (for an integer within the range of doubles).
\<close>

fun excess :: "nat \<Rightarrow> nat" where
  "excess a = (if a < 2 ^ 53 then 0 else Suc (excess (a div 2)))"

declare excess.simps [simp del]

definition nearest_double :: "int \<Rightarrow> int" where
  "nearest_double n =
     (let a = nat \<bar>n\<bar>; e = excess a; q = a div 2 ^ e; r = a mod 2 ^ e
      in sgn n * int ((if 2 ^ e < 2 * r \<or> (2 * r = 2 ^ e \<and> odd q) then q + 1 else q) * 2 ^ e))"

text \<open>
  In the examples the constructor meets lists, texts and missing values only and stores
  no column as float64; \<^verbatim>\<open>apply\<close> meets floats, integers and missing values under
  \<open>lat\<close> and \<open>lon\<close> and stores both series as float64; \<^verbatim>\<open>astype(str)\<close> meets
  texts and missing values only, and the text of a missing value is \<open>nan\<close>. The
  argument says whether \<^verbatim>\<open>astype(str)\<close> keeps missing values. A float is written
  as the real number it denotes.
\<close>

definition pandas_example :: "bool \<Rightarrow> real pandas" where
  "pandas_example keeps =
     \<lparr>keeps_missing = keeps,
      str_of = (\<lambda>i j x. ''nan''),
      float64 = (\<lambda>n. real_of_int (nearest_double n)),
      float_column = (\<lambda>c. False),
      float_series = (\<lambda>c. True)\<rparr>"

section \<open>The rows of the cleaner, one by one\<close>

text \<open>
  Every step of the cleaner works row by row. The functions of this section give, for
  the table built from the records \<open>recs\<close>, the header and the row of record \<open>i\<close>
  after each step; the lemmas of the next section show that the cleaner computes them.
\<close>

text \<open>The row of record \<open>i\<close> in \<open>DataFrame pd recs\<close>.\<close>

definition raw_row :: "'f pandas \<Rightarrow> (string \<times> 'f cell) list list \<Rightarrow> nat \<Rightarrow> 'f cell list" where
  "raw_row pd recs i =
     map (\<lambda>c. stored pd (float_column pd c) (field (recs ! i) c)) (columns (DataFrame pd recs))"

text \<open>
  A row after lines 47 and 48, and the header and the row of record \<open>i\<close> when
  \<^verbatim>\<open>dropna\<close> is reached.
\<close>

definition coord_row :: "'f pandas \<Rightarrow> string list \<Rightarrow> 'f cell list \<Rightarrow> 'f cell list" where
  "coord_row pd cols r =
     (let r1 = put_cell ''lat''
                 (stored pd (float_series pd ''lat'') (lat_of (cell_value cols r ''coord_geo'')))
                 cols r;
          cols1 = put_label ''lat'' cols
      in put_cell ''lon''
           (stored pd (float_series pd ''lon'') (lon_of (cell_value cols1 r1 ''coord_geo'')))
           cols1 r1)"

definition header1 :: "'f pandas \<Rightarrow> (string \<times> 'f cell) list list \<Rightarrow> string list" where
  "header1 pd recs =
     (if ''coord_geo'' \<in> set (columns (DataFrame pd recs))
      then put_label ''lon'' (put_label ''lat'' (columns (DataFrame pd recs)))
      else columns (DataFrame pd recs))"

definition row1 :: "'f pandas \<Rightarrow> (string \<times> 'f cell) list list \<Rightarrow> nat \<Rightarrow> 'f cell list" where
  "row1 pd recs i =
     (if ''coord_geo'' \<in> set (columns (DataFrame pd recs))
      then coord_row pd (columns (DataFrame pd recs)) (raw_row pd recs i)
      else raw_row pd recs i)"

text \<open>The header and a row after lines 67 to 78, from those after the renaming.\<close>

definition std_cols :: "string list \<Rightarrow> string list" where
  "std_cols cols = put_label ''color'' (put_label ''Ligne'' (put_label ''Tarif'' cols))"

definition std_row :: "'f pandas \<Rightarrow> nat \<Rightarrow> string list \<Rightarrow> 'f cell list \<Rightarrow> 'f cell list" where
  "std_row pd i cols r =
     (let r1 = (if ''Tarif'' \<in> set cols
                then update_cells ''Tarif'' (\<lambda>j. fillna (Str ''Inconnu'')) cols r
                else put_cell ''Tarif'' (Str ''Inconnu'') cols r);
          cols1 = put_label ''Tarif'' cols;
          r2 = (if ''Ligne'' \<in> set cols1
                then update_cells ''Ligne'' (astype_str pd i) cols1 r1
                else put_cell ''Ligne'' (Str ''Inconnue'') cols1 r1)
      in put_cell ''color'' (Str ''#FF0000'') (put_label ''Ligne'' cols1) r2)"

section \<open>Lemmas\<close>

subsection \<open>Rows of the operations\<close>

lemma zip_map_same: "zip xs (map h xs) = map (\<lambda>x. (x, h x)) xs"
  by (induction xs) auto

lemma setitem_of_rows:
  "setitem c (map g (rows df)) df
     = \<lparr>columns = put_label c (columns df),
        rows = map (\<lambda>(i, r). (i, put_cell c (g (i, r)) (columns df) r)) (rows df)\<rparr>"
  by (simp add: setitem_def zip_map_same split_def)

lemma setitem_scalar_rows:
  "setitem_scalar c v df
     = \<lparr>columns = put_label c (columns df),
        rows = map (\<lambda>(i, r). (i, put_cell c v (columns df) r)) (rows df)\<rparr>"
proof -
  have "replicate (length (rows df)) v = map (\<lambda>p. v) (rows df)"
    by (simp add: map_replicate_const)
  then show ?thesis
    unfolding setitem_scalar_def using setitem_of_rows[of c "\<lambda>p. v" df] by simp
qed

lemma put_label_mem: "c' \<in> set (put_label c cols) \<longleftrightarrow> c' = c \<or> c' \<in> set cols"
  by (auto simp: put_label_def)

lemma coordonnees_rows:
  assumes geo: "''coord_geo'' \<in> set (columns df)"
  shows "coordonnees pd df
     = \<lparr>columns = put_label ''lon'' (put_label ''lat'' (columns df)),
        rows = map (\<lambda>(i, r). (i, coord_row pd (columns df) r)) (rows df)\<rparr>"
proof -
  define g where "g = (\<lambda>p :: nat \<times> 'a cell list.
      stored pd (float_series pd ''lat'') (lat_of (cell_value (columns df) (snd p) ''coord_geo'')))"
  define df1 where "df1 = setitem ''lat'' (map g (rows df)) df"
  have get: "getitem df ''coord_geo''
               = Inr (map (\<lambda>(i, r). cell_value (columns df) r ''coord_geo'') (rows df))"
    using geo by (simp add: getitem_def)
  have ap: "apply_series pd ''lat'' lat_of
              (map (\<lambda>(i, r). cell_value (columns df) r ''coord_geo'') (rows df))
            = map g (rows df)"
    by (simp add: apply_series_def g_def split_def)
  have df1: "df1 = \<lparr>columns = put_label ''lat'' (columns df),
                    rows = map (\<lambda>(i, r). (i, put_cell ''lat'' (g (i, r)) (columns df) r)) (rows df)\<rparr>"
    unfolding df1_def by (rule setitem_of_rows)
  define g1 where "g1 = (\<lambda>p :: nat \<times> 'a cell list.
      stored pd (float_series pd ''lon'') (lon_of (cell_value (columns df1) (snd p) ''coord_geo'')))"
  have geo1: "''coord_geo'' \<in> set (columns df1)" using geo by (simp add: df1 put_label_mem)
  have get1: "getitem df1 ''coord_geo''
               = Inr (map (\<lambda>(i, r). cell_value (columns df1) r ''coord_geo'') (rows df1))"
    using geo1 by (simp add: getitem_def)
  have ap1: "apply_series pd ''lon'' lon_of
              (map (\<lambda>(i, r). cell_value (columns df1) r ''coord_geo'') (rows df1))
            = map g1 (rows df1)"
    by (simp add: apply_series_def g1_def split_def)
  have "coordonnees pd df = setitem ''lon'' (map g1 (rows df1)) df1"
    by (simp add: coordonnees_def get ap df1_def[symmetric] Let_def get1 ap1)
  also have "\<dots> = \<lparr>columns = put_label ''lon'' (columns df1),
                    rows = map (\<lambda>(i, r). (i, put_cell ''lon'' (g1 (i, r)) (columns df1) r)) (rows df1)\<rparr>"
    by (rule setitem_of_rows)
  also have "\<dots> = \<lparr>columns = put_label ''lon'' (put_label ''lat'' (columns df)),
        rows = map (\<lambda>(i, r). (i, coord_row pd (columns df) r)) (rows df)\<rparr>"
    by (simp add: df1 g1_def g_def coord_row_def Let_def split_def)
  finally show ?thesis .
qed

lemma update_column_rows:
  "update_column c f df
     = \<lparr>columns = columns df,
        rows = map (\<lambda>(i, r). (i, update_cells c (f i) (columns df) r)) (rows df)\<rparr>"
  by (simp add: update_column_def)

lemma standardisation_rows:
  "standardisation pd df
     = \<lparr>columns = std_cols (columns df),
        rows = map (\<lambda>(i, r). (i, std_row pd i (columns df) r)) (rows df)\<rparr>"
proof (cases "''Tarif'' \<in> set (columns df)")
  case T: True
  show ?thesis
  proof (cases "''Ligne'' \<in> set (columns df)")
    case True
    with T show ?thesis
      by (simp add: standardisation_def Let_def update_column_rows setitem_scalar_rows
          std_cols_def std_row_def put_label_def split_def)
  next
    case False
    with T show ?thesis
      by (simp add: standardisation_def Let_def update_column_rows setitem_scalar_rows
          std_cols_def std_row_def put_label_def split_def)
  qed
next
  case T: False
  show ?thesis
  proof (cases "''Ligne'' \<in> set (columns df)")
    case True
    with T show ?thesis
      by (simp add: standardisation_def Let_def update_column_rows setitem_scalar_rows
          std_cols_def std_row_def put_label_def split_def)
  next
    case False
    with T show ?thesis
      by (simp add: standardisation_def Let_def update_column_rows setitem_scalar_rows
          std_cols_def std_row_def put_label_def split_def)
  qed
qed

subsection \<open>Cells under a label\<close>

lemma zip_map2_same: "zip ks (map2 h ks r) = map (\<lambda>(k, x). (k, h k x)) (zip ks r)"
proof (induction ks arbitrary: r)
  case Nil
  then show ?case by simp
next
  case (Cons k ks)
  then show ?case by (cases r) simp_all
qed

lemma length_put_cell:
  "length r = length cols \<Longrightarrow> length (put_cell c v cols r) = length (put_label c cols)"
  by (simp add: put_label_def put_cell_def)

lemma cell_at_put:
  assumes "length r = length cols"
  shows "cell_at (put_label c cols) (put_cell c v cols r) c'
           = (if c' = c then Some v else cell_at cols r c')"
proof (cases "c \<in> set cols")
  case True
  have other: "map_of (map (\<lambda>(k, x). (k, if k = c then v else x)) (zip cols r)) c'
          = map_of (zip cols r) c'"
    if "c' \<noteq> c" for cols :: "string list" and r :: "'a cell list"
    using that by (induction cols r rule: list_induct2') auto
  have same: "map_of (map (\<lambda>(k, x). (k, if k = c then v else x)) (zip cols r)) c = Some v"
    if "length r = length cols" "c \<in> set cols" for cols :: "string list" and r :: "'a cell list"
    using that by (induction cols r rule: list_induct2') auto
  from True assms other same show ?thesis
    by (simp add: cell_at_def put_label_def put_cell_def zip_map2_same)
next
  case False
  then have n: "map_of (zip cols r) c = None"
    using assms by (simp add: map_of_zip_is_None)
  show ?thesis
  proof (cases "map_of (zip cols r) c'")
    case None
    show ?thesis using False assms
      by (simp add: cell_at_def put_label_def put_cell_def map_add_def None n)
  next
    case (Some y)
    with n have "c' \<noteq> c" by auto
    then show ?thesis using False assms
      by (simp add: cell_at_def put_label_def put_cell_def map_add_def Some)
  qed
qed

lemma length_update_cells:
  "length r = length cols \<Longrightarrow> length (update_cells c f cols r) = length cols"
  by (simp add: update_cells_def)

lemma map_of_update_other:
  "c' \<noteq> c \<Longrightarrow>
   map_of (zip ks (map2 (\<lambda>(j, k) x. if k = c then f j x else x) (enumerate n ks) r)) c'
     = map_of (zip ks r) c'"
proof (induction ks arbitrary: n r)
  case Nil
  then show ?case by simp
next
  case (Cons k ks)
  then show ?case by (cases r) auto
qed

lemma map_of_update_same:
  "\<exists>j. map_of (zip ks (map2 (\<lambda>(j, k) x. if k = c then f j x else x) (enumerate n ks) r)) c
         = map_option (f j) (map_of (zip ks r) c)"
proof (induction ks arbitrary: n r)
  case Nil
  then show ?case by simp
next
  case (Cons k ks)
  show ?case
  proof (cases r)
    case Nil
    then show ?thesis by simp
  next
    case (Cons x r')
    show ?thesis
    proof (cases "k = c")
      case True
      then show ?thesis using Cons by (auto intro: exI[of _ n])
    next
      case False
      from Cons.IH[of "Suc n" r'] obtain j where
        "map_of (zip ks (map2 (\<lambda>(j, k) x. if k = c then f j x else x) (enumerate (Suc n) ks) r')) c
           = map_option (f j) (map_of (zip ks r') c)" by blast
      then show ?thesis using False Cons by (auto intro: exI[of _ j])
    qed
  qed
qed

lemma cell_at_update_other:
  "c' \<noteq> c \<Longrightarrow> cell_at cols (update_cells c f cols r) c' = cell_at cols r c'"
  by (simp add: cell_at_def update_cells_def map_of_update_other)

lemma cell_at_update_same:
  "\<exists>j. cell_at cols (update_cells c f cols r) c = map_option (f j) (cell_at cols r c)"
  unfolding cell_at_def update_cells_def by (rule map_of_update_same)

lemma cell_at_rename:
  "cell_at (map g cols) r c
     = (case find (\<lambda>k. g k = c) cols of None \<Rightarrow> None | Some k \<Rightarrow> cell_at cols r k)"
  unfolding cell_at_def
proof (induction cols arbitrary: r)
  case Nil
  then show ?case by simp
next
  case (Cons k cols)
  show ?case
  proof (cases r)
    case Nil
    then show ?thesis by (simp split: option.splits)
  next
    case (Cons x r')
    show ?thesis
    proof (cases "g k = c")
      case True
      then show ?thesis using Cons by simp
    next
      case False
      have "k2 \<noteq> k" if "find (\<lambda>k. g k = c) cols = Some k2" for k2
        using that False by (auto simp: find_Some_iff)
      then show ?thesis using False Cons Cons.IH[of r']
        by (auto split: option.splits)
    qed
  qed
qed

lemma find_put_label: "\<not> P c \<Longrightarrow> find P (put_label c cols) = find P cols"
  by (induction cols) (auto simp: put_label_def)

lemma cell_at_map: "c \<in> set cols \<Longrightarrow> cell_at cols (map h cols) c = Some (h c)"
  by (simp add: cell_at_def map_of_zip_map)

lemma cell_at_is_Some:
  "c \<in> set cols \<Longrightarrow> length r = length cols \<Longrightarrow> \<exists>x. cell_at cols r c = Some x"
  unfolding cell_at_def by (metis map_of_zip_is_Some option.exhaust_sel not_None_eq)

lemma complete_row_iff:
  assumes "distinct cols" and "length r = length cols"
  shows "complete_row labels cols r
           \<longleftrightarrow> (\<forall>c \<in> set labels. c \<in> set cols \<longrightarrow> (\<exists>x. cell_at cols r c = Some x \<and> \<not> isna x))"
proof -
  have d: "distinct (map fst (zip cols r))" using assms by (simp add: map_fst_zip)
  have eq: "(k, x) \<in> set (zip cols r) \<longleftrightarrow> cell_at cols r k = Some x" for k x
    using d by (simp add: cell_at_def)
  have "complete_row labels cols r
          \<longleftrightarrow> (\<forall>k x. (k, x) \<in> set (zip cols r) \<longrightarrow> k \<in> set labels \<longrightarrow> \<not> isna x)"
    by (auto simp: complete_row_def list_all_iff)
  also have "\<dots> \<longleftrightarrow> (\<forall>c \<in> set labels. c \<in> set cols \<longrightarrow> (\<exists>x. cell_at cols r c = Some x \<and> \<not> isna x))"
  proof
    assume L: "\<forall>k x. (k, x) \<in> set (zip cols r) \<longrightarrow> k \<in> set labels \<longrightarrow> \<not> isna x"
    show "\<forall>c \<in> set labels. c \<in> set cols \<longrightarrow> (\<exists>x. cell_at cols r c = Some x \<and> \<not> isna x)"
    proof (intro ballI impI)
      fix c assume c: "c \<in> set labels" "c \<in> set cols"
      from cell_at_is_Some[OF c(2) assms(2)] obtain x where x: "cell_at cols r c = Some x" by blast
      with L c(1) eq show "\<exists>x. cell_at cols r c = Some x \<and> \<not> isna x" by blast
    qed
  next
    assume R: "\<forall>c \<in> set labels. c \<in> set cols \<longrightarrow> (\<exists>x. cell_at cols r c = Some x \<and> \<not> isna x)"
    show "\<forall>k x. (k, x) \<in> set (zip cols r) \<longrightarrow> k \<in> set labels \<longrightarrow> \<not> isna x"
    proof (intro allI impI)
      fix k x assume kx: "(k, x) \<in> set (zip cols r)" and k: "k \<in> set labels"
      from kx have "k \<in> set cols" by (rule set_zip_leftD)
      with R k obtain y where "cell_at cols r k = Some y" "\<not> isna y" by blast
      with kx eq show "\<not> isna x" by simp
    qed
  qed
  finally show ?thesis .
qed

lemma distinct_put_label: "distinct cols \<Longrightarrow> distinct (put_label c cols)"
  by (simp add: put_label_def)

subsection \<open>The constructor\<close>

lemma set_unique [simp]: "set (unique xs) = set xs"
  by (simp add: unique_def)

lemma distinct_unique [simp]: "distinct (unique xs)"
  by (simp add: unique_def)

lemma columns_DataFrame: "columns (DataFrame pd recs) = unique (concat (map (map fst) recs))"
  by (simp add: DataFrame_def Let_def)

lemma distinct_columns_DataFrame: "distinct (columns (DataFrame pd recs))"
  by (simp add: columns_DataFrame)

lemma rows_DataFrame:
  "rows (DataFrame pd recs) = map (\<lambda>i. (i, raw_row pd recs i)) [0..<length recs]"
  by (auto simp: DataFrame_def Let_def raw_row_def nth_enumerate_eq intro!: nth_equalityI)

lemma length_raw_row: "length (raw_row pd recs i) = length (columns (DataFrame pd recs))"
  by (simp add: raw_row_def)

lemma cell_at_raw_row:
  "c \<in> set (columns (DataFrame pd recs)) \<Longrightarrow>
   cell_at (columns (DataFrame pd recs)) (raw_row pd recs i) c
     = Some (stored pd (float_column pd c) (field (recs ! i) c))"
  unfolding raw_row_def by (rule cell_at_map)

lemma field_absent:
  assumes c: "c \<notin> set (columns (DataFrame pd recs))" and i: "i < length recs"
  shows "field (recs ! i) c = Null"
proof -
  from c i have "c \<notin> fst ` set (recs ! i)" by (force simp: columns_DataFrame)
  then have "map_of (recs ! i) c = None" by (simp add: map_of_eq_None_iff)
  then show ?thesis by (simp add: field_def)
qed

subsection \<open>Rows of the cleaner\<close>

lemma length_coord_row:
  "length r = length cols \<Longrightarrow>
   length (coord_row pd cols r) = length (put_label ''lon'' (put_label ''lat'' cols))"
  by (simp add: coord_row_def Let_def length_put_cell)

lemma cell_at_coord_row:
  assumes "length r = length cols"
  shows "cell_at (put_label ''lon'' (put_label ''lat'' cols)) (coord_row pd cols r) c
     = (if c = ''lon''
        then Some (stored pd (float_series pd ''lon'') (lon_of (cell_value cols r ''coord_geo'')))
        else if c = ''lat''
        then Some (stored pd (float_series pd ''lat'') (lat_of (cell_value cols r ''coord_geo'')))
        else cell_at cols r c)"
proof -
  let ?v = "stored pd (float_series pd ''lat'') (lat_of (cell_value cols r ''coord_geo''))"
  let ?r1 = "put_cell ''lat'' ?v cols r"
  have l1: "length ?r1 = length (put_label ''lat'' cols)" using assms by (rule length_put_cell)
  have "cell_value (put_label ''lat'' cols) ?r1 ''coord_geo'' = cell_value cols r ''coord_geo''"
    by (simp add: cell_value_def cell_at_put[OF assms])
  then show ?thesis
    by (simp add: coord_row_def Let_def cell_at_put[OF l1] cell_at_put[OF assms])
qed

lemma length_std_row:
  "length r = length cols \<Longrightarrow> length (std_row pd i cols r) = length (std_cols cols)"
  by (simp add: std_row_def std_cols_def Let_def length_put_cell length_update_cells put_label_def)

lemma length_std_row1:
  "length r = length cols \<Longrightarrow>
   length (if ''Tarif'' \<in> set cols
           then update_cells ''Tarif'' f cols r
           else put_cell ''Tarif'' v cols r) = length (put_label ''Tarif'' cols)"
  by (simp add: length_put_cell length_update_cells put_label_def)

lemma length_std_row2:
  "length r1 = length cols1 \<Longrightarrow>
   length (if ''Ligne'' \<in> set cols1
           then update_cells ''Ligne'' f cols1 r1
           else put_cell ''Ligne'' v cols1 r1) = length (put_label ''Ligne'' cols1)"
  by (simp add: length_put_cell length_update_cells put_label_def)

lemma cell_at_std_row1:
  assumes "length r = length cols"
  shows "cell_at (put_label ''Tarif'' cols)
           (if ''Tarif'' \<in> set cols
            then update_cells ''Tarif'' (\<lambda>j. fillna v) cols r
            else put_cell ''Tarif'' v cols r) c
         = (if c = ''Tarif''
            then (if ''Tarif'' \<in> set cols then map_option (fillna v) (cell_at cols r ''Tarif'')
                  else Some v)
            else cell_at cols r c)"
proof (cases "''Tarif'' \<in> set cols")
  case True
  from cell_at_update_same[of cols "''Tarif''" "\<lambda>j. fillna v" r]
  have "cell_at cols (update_cells ''Tarif'' (\<lambda>j. fillna v) cols r) ''Tarif''
          = map_option (fillna v) (cell_at cols r ''Tarif'')" by blast
  with True show ?thesis by (simp add: put_label_def cell_at_update_other)
next
  case False
  then show ?thesis using cell_at_put[OF assms, of "''Tarif''" v c] by simp
qed

lemma cell_at_std_row2:
  assumes "length r = length cols"
  shows "\<exists>j. \<forall>c. cell_at (put_label ''Ligne'' cols)
           (if ''Ligne'' \<in> set cols
            then update_cells ''Ligne'' f cols r
            else put_cell ''Ligne'' v cols r) c
         = (if c = ''Ligne''
            then (if ''Ligne'' \<in> set cols then map_option (f j) (cell_at cols r ''Ligne'')
                  else Some v)
            else cell_at cols r c)"
proof (cases "''Ligne'' \<in> set cols")
  case True
  from cell_at_update_same[of cols "''Ligne''" f r] obtain j where
    "cell_at cols (update_cells ''Ligne'' f cols r) ''Ligne''
          = map_option (f j) (cell_at cols r ''Ligne'')" by blast
  with True show ?thesis by (auto simp: put_label_def cell_at_update_other intro!: exI[of _ j])
next
  case False
  then show ?thesis using cell_at_put[OF assms, of "''Ligne''" v] by simp
qed

lemma cell_at_std_row:
  assumes len: "length r = length cols"
  shows "\<exists>j. \<forall>c. cell_at (std_cols cols) (std_row pd i cols r) c
     = (if c = ''color'' then Some (Str ''#FF0000'')
        else if c = ''Ligne''
        then (if ''Ligne'' \<in> set cols
              then map_option (astype_str pd i j) (cell_at cols r ''Ligne'')
              else Some (Str ''Inconnue''))
        else if c = ''Tarif''
        then (if ''Tarif'' \<in> set cols
              then map_option (fillna (Str ''Inconnu'')) (cell_at cols r ''Tarif'')
              else Some (Str ''Inconnu''))
        else cell_at cols r c)"
proof -
  define r1 where "r1 = (if ''Tarif'' \<in> set cols
             then update_cells ''Tarif'' (\<lambda>j. fillna (Str ''Inconnu'')) cols r
             else put_cell ''Tarif'' (Str ''Inconnu'') cols r)"
  define c1 where "c1 = put_label ''Tarif'' cols"
  define r2 where "r2 = (if ''Ligne'' \<in> set c1
             then update_cells ''Ligne'' (astype_str pd i) c1 r1
             else put_cell ''Ligne'' (Str ''Inconnue'') c1 r1)"
  define c2 where "c2 = put_label ''Ligne'' c1"
  have l1: "length r1 = length c1" unfolding r1_def c1_def using len by (rule length_std_row1)
  have l2: "length r2 = length c2" unfolding r2_def c2_def using l1 by (rule length_std_row2)
  have t: "cell_at c1 r1 c
         = (if c = ''Tarif''
            then (if ''Tarif'' \<in> set cols
                  then map_option (fillna (Str ''Inconnu'')) (cell_at cols r ''Tarif'')
                  else Some (Str ''Inconnu''))
            else cell_at cols r c)" for c
    unfolding r1_def c1_def by (rule cell_at_std_row1[OF len])
  from cell_at_std_row2[OF l1, of "astype_str pd i" "Str ''Inconnue''"] obtain j where
    j: "\<And>c. cell_at c2 r2 c
         = (if c = ''Ligne''
            then (if ''Ligne'' \<in> set c1 then map_option (astype_str pd i j) (cell_at c1 r1 ''Ligne'')
                  else Some (Str ''Inconnue''))
            else cell_at c1 r1 c)" unfolding r2_def c2_def by blast
  have L: "''Ligne'' \<in> set c1 \<longleftrightarrow> ''Ligne'' \<in> set cols" by (simp add: c1_def put_label_mem)
  have eq: "std_row pd i cols r = put_cell ''color'' (Str ''#FF0000'') c2 r2"
    by (simp add: std_row_def Let_def r1_def c1_def r2_def c2_def)
  have cols: "std_cols cols = put_label ''color'' c2"
    by (simp add: std_cols_def c1_def c2_def)
  have "cell_at (std_cols cols) (std_row pd i cols r) c
     = (if c = ''color'' then Some (Str ''#FF0000'')
        else if c = ''Ligne''
        then (if ''Ligne'' \<in> set cols
              then map_option (astype_str pd i j) (cell_at cols r ''Ligne'')
              else Some (Str ''Inconnue''))
        else if c = ''Tarif''
        then (if ''Tarif'' \<in> set cols
              then map_option (fillna (Str ''Inconnu'')) (cell_at cols r ''Tarif'')
              else Some (Str ''Inconnu''))
        else cell_at cols r c)" for c
    unfolding eq cols by (simp add: cell_at_put[OF l2] j L t)
  then show ?thesis by blast
qed

subsection \<open>The renaming\<close>

lemma renamed_Tarif:
  "renamed mapping k = ''Tarif'' \<longleftrightarrow> k = ''tarif_gratuit_payant'' \<or> k = ''Tarif''"
  by (auto simp: renamed_def mapping_def)

lemma renamed_Ligne: "renamed mapping k = ''Ligne'' \<longleftrightarrow> k = ''ligne'' \<or> k = ''Ligne''"
  by (auto simp: renamed_def mapping_def)

lemma renamed_lat: "renamed mapping k = ''lat'' \<longleftrightarrow> k = ''lat''"
  by (auto simp: renamed_def mapping_def)

lemma renamed_lon: "renamed mapping k = ''lon'' \<longleftrightarrow> k = ''lon''"
  by (auto simp: renamed_def mapping_def)

subsection \<open>The cleaned table\<close>

lemma header1_props:
  "distinct (header1 pd recs)"
  "set (columns (DataFrame pd recs)) \<subseteq> set (header1 pd recs)"
  "length (row1 pd recs i) = length (header1 pd recs)"
  by (auto simp: header1_def row1_def distinct_put_label distinct_columns_DataFrame put_label_mem
      length_coord_row length_raw_row)

lemma header1_geo:
  "''coord_geo'' \<in> set (columns (DataFrame pd recs)) \<Longrightarrow>
     ''lat'' \<in> set (header1 pd recs) \<and> ''lon'' \<in> set (header1 pd recs)"
  by (simp add: header1_def put_label_mem)

lemma df1_rows:
  "(if ''coord_geo'' \<in> set (columns (DataFrame pd recs))
    then coordonnees pd (DataFrame pd recs) else DataFrame pd recs)
   = \<lparr>columns = header1 pd recs,
      rows = map (\<lambda>i. (i, row1 pd recs i)) [0..<length recs]\<rparr>"
  by (simp add: coordonnees_rows header1_def row1_def rows_DataFrame comp_def)

lemma clean_data_DataFrame:
  assumes ne: "\<not> empty_df (DataFrame pd recs)"
  shows "clean_data pd (DataFrame pd recs)
     = (if ''lat'' \<in> set (header1 pd recs) \<and> ''lon'' \<in> set (header1 pd recs)
        then Inr \<lparr>columns = std_cols (map (renamed mapping) (header1 pd recs)),
                  rows = map (\<lambda>i. (i, std_row pd i (map (renamed mapping) (header1 pd recs))
                                        (row1 pd recs i)))
                    (filter (\<lambda>i. complete_row [''lat'', ''lon''] (header1 pd recs) (row1 pd recs i))
                       [0..<length recs])\<rparr>
        else Inl (KeyError (filter (\<lambda>c. c \<notin> set (header1 pd recs)) [''lat'', ''lon''])))"
proof -
  define df1 where "df1 = (if ''coord_geo'' \<in> set (columns (DataFrame pd recs))
    then coordonnees pd (DataFrame pd recs) else DataFrame pd recs)"
  have df1: "df1 = \<lparr>columns = header1 pd recs,
      rows = map (\<lambda>i. (i, row1 pd recs i)) [0..<length recs]\<rparr>"
    unfolding df1_def by (rule df1_rows)
  have c: "clean_data pd (DataFrame pd recs)
         = (case dropna [''lat'', ''lon''] df1 of
              Inl e \<Rightarrow> Inl e
            | Inr df2 \<Rightarrow> Inr (standardisation pd (rename mapping df2)))"
    using ne by (simp add: clean_data_def df1_def Let_def)
  show ?thesis
  proof (cases "''lat'' \<in> set (header1 pd recs) \<and> ''lon'' \<in> set (header1 pd recs)")
    case True
    then have "dropna [''lat'', ''lon''] df1
        = Inr \<lparr>columns = header1 pd recs,
               rows = map (\<lambda>i. (i, row1 pd recs i))
                 (filter (\<lambda>i. complete_row [''lat'', ''lon''] (header1 pd recs) (row1 pd recs i))
                    [0..<length recs])\<rparr>"
      by (simp add: dropna_def df1 filter_map comp_def)
    with True show ?thesis
      by (simp add: c standardisation_rows rename_def comp_def)
  next
    case False
    then have "dropna [''lat'', ''lon''] df1
        = Inl (KeyError (filter (\<lambda>c. c \<notin> set (header1 pd recs)) [''lat'', ''lon'']))"
      by (auto simp: dropna_def df1)
    with False show ?thesis by (simp add: c)
  qed
qed

lemma cleaned_rows:
  assumes ok: "clean_data pd (DataFrame pd recs) = Inr out"
    and ne: "\<not> empty_df (DataFrame pd recs)"
  shows "columns out = std_cols (map (renamed mapping) (header1 pd recs))"
    and "''lat'' \<in> set (header1 pd recs)" and "''lon'' \<in> set (header1 pd recs)"
    and "(i, r) \<in> set (rows out) \<longleftrightarrow>
           i < length recs
         \<and> complete_row [''lat'', ''lon''] (header1 pd recs) (row1 pd recs i)
         \<and> r = std_row pd i (map (renamed mapping) (header1 pd recs)) (row1 pd recs i)"
proof -
  have ll: "''lat'' \<in> set (header1 pd recs) \<and> ''lon'' \<in> set (header1 pd recs)"
    using ok clean_data_DataFrame[OF ne] by (auto split: if_splits)
  then show "''lat'' \<in> set (header1 pd recs)" and "''lon'' \<in> set (header1 pd recs)" by auto
  from ll ok clean_data_DataFrame[OF ne]
  have out: "out = \<lparr>columns = std_cols (map (renamed mapping) (header1 pd recs)),
                  rows = map (\<lambda>i. (i, std_row pd i (map (renamed mapping) (header1 pd recs))
                                        (row1 pd recs i)))
                    (filter (\<lambda>i. complete_row [''lat'', ''lon''] (header1 pd recs) (row1 pd recs i))
                       [0..<length recs])\<rparr>"
    by simp
  show "columns out = std_cols (map (renamed mapping) (header1 pd recs))"
    by (simp add: out)
  show "(i, r) \<in> set (rows out) \<longleftrightarrow>
           i < length recs
         \<and> complete_row [''lat'', ''lon''] (header1 pd recs) (row1 pd recs i)
         \<and> r = std_row pd i (map (renamed mapping) (header1 pd recs)) (row1 pd recs i)"
    by (auto simp: out)
qed

text \<open>The cell of \<open>row1\<close> under a label of the raw table that is not \<open>lat\<close> or \<open>lon\<close>.\<close>

lemma cell_at_row1:
  assumes "k \<in> set (columns (DataFrame pd recs))" and "k \<noteq> ''lat''" and "k \<noteq> ''lon''"
  shows "cell_at (header1 pd recs) (row1 pd recs i) k
           = Some (stored pd (float_column pd k) (field (recs ! i) k))"
  using assms
  by (simp add: header1_def row1_def cell_at_coord_row[OF length_raw_row] cell_at_raw_row)

lemma lat_of_stored [simp]: "lat_of (stored pd b x) = lat_of x"
  by (cases x) (simp_all add: stored_def)

lemma lon_of_stored [simp]: "lon_of (stored pd b x) = lon_of x"
  by (cases x) (simp_all add: stored_def)

lemma cell_at_row1_lat:
  assumes "''coord_geo'' \<in> set (columns (DataFrame pd recs))"
  shows "cell_at (header1 pd recs) (row1 pd recs i) ''lat''
           = Some (stored pd (float_series pd ''lat'') (lat_of (field (recs ! i) ''coord_geo'')))"
    and "cell_at (header1 pd recs) (row1 pd recs i) ''lon''
           = Some (stored pd (float_series pd ''lon'') (lon_of (field (recs ! i) ''coord_geo'')))"
  using assms
  by (simp_all add: header1_def row1_def cell_at_coord_row[OF length_raw_row] cell_value_def
      cell_at_raw_row)

text \<open>The first upstream field that the renaming gives the label \<open>c\<close>.\<close>

lemma find_header1:
  assumes "\<not> P ''lat''" and "\<not> P ''lon''"
  shows "find P (header1 pd recs) = find P (columns (DataFrame pd recs))"
  using assms by (simp add: header1_def find_put_label)

lemma cell_at_renamed_row1:
  assumes lat: "c \<noteq> ''lat''" and lon: "c \<noteq> ''lon''"
  shows "cell_at (map (renamed mapping) (header1 pd recs)) (row1 pd recs i) c
     = (case find (\<lambda>k. renamed mapping k = c) (columns (DataFrame pd recs)) of
          None \<Rightarrow> None
        | Some k \<Rightarrow> Some (stored pd (float_column pd k) (field (recs ! i) k)))"
proof -
  have nl: "\<not> renamed mapping ''lat'' = c" "\<not> renamed mapping ''lon'' = c"
    using lat lon by (auto simp: renamed_def mapping_def)
  have f: "find (\<lambda>k. renamed mapping k = c) (header1 pd recs)
         = find (\<lambda>k. renamed mapping k = c) (columns (DataFrame pd recs))"
    using nl by (rule find_header1)
  show ?thesis
  proof (cases "find (\<lambda>k. renamed mapping k = c) (columns (DataFrame pd recs))")
    case None
    then show ?thesis by (simp add: cell_at_rename f)
  next
    case (Some k)
    then have k: "k \<in> set (columns (DataFrame pd recs))" "renamed mapping k = c"
      by (auto simp: find_Some_iff)
    with lat lon have "k \<noteq> ''lat''" "k \<noteq> ''lon''"
      by (auto simp: renamed_lat renamed_lon)
    with k(1) have "cell_at (header1 pd recs) (row1 pd recs i) k
           = Some (stored pd (float_column pd k) (field (recs ! i) k))"
      by (rule cell_at_row1)
    with Some show ?thesis by (simp add: cell_at_rename f)
  qed
qed

lemma find_eq: "x \<in> set xs \<Longrightarrow> find (\<lambda>k. k = x) xs = Some x"
  by (induction xs) auto

lemma cell_at_renamed_row1_lat:
  assumes "''lat'' \<in> set (header1 pd recs)"
  shows "cell_at (map (renamed mapping) (header1 pd recs)) (row1 pd recs i) ''lat''
           = cell_at (header1 pd recs) (row1 pd recs i) ''lat''"
proof -
  have "find (\<lambda>k. renamed mapping k = ''lat'') (header1 pd recs) = Some ''lat''"
    unfolding renamed_lat using assms by (rule find_eq)
  then show ?thesis by (simp add: cell_at_rename)
qed

lemma cell_at_renamed_row1_lon:
  assumes "''lon'' \<in> set (header1 pd recs)"
  shows "cell_at (map (renamed mapping) (header1 pd recs)) (row1 pd recs i) ''lon''
           = cell_at (header1 pd recs) (row1 pd recs i) ''lon''"
proof -
  have "find (\<lambda>k. renamed mapping k = ''lon'') (header1 pd recs) = Some ''lon''"
    unfolding renamed_lon using assms by (rule find_eq)
  then show ?thesis by (simp add: cell_at_rename)
qed

lemma nearest_double_small:
  assumes "\<bar>n\<bar> < 2 ^ 53"
  shows "nearest_double n = n"
proof -
  have "nat \<bar>n\<bar> < 2 ^ 53" using assms by (simp add: nat_less_iff)
  then have e: "excess (nat \<bar>n\<bar>) = 0" by (subst excess.simps) simp
  show ?thesis by (simp add: nearest_double_def Let_def e mult_sgn_abs)
qed

lemma nearest_double_example: "nearest_double 9007199254740993 = 9007199254740992"
  by (simp add: nearest_double_def excess.simps[of 9007199254740993]
      excess.simps[of 4503599627370496] Let_def)

lemmas frame_defs = DataFrame_def unique_def field_def empty_df_def stored_def

lemmas clean_defs = clean_data_def coordonnees_def apply_series_def dropna_def complete_row_def
  getitem_def cell_value_def setitem_def put_label_def put_cell_def setitem_scalar_def
  update_column_def update_cells_def rename_def renamed_def mapping_def standardisation_def
  fillna_def astype_str_def cell_at_def

lemma pandas_example_simps [simp]:
  "keeps_missing (pandas_example keeps) = keeps"
  "str_of (pandas_example keeps) i j x = ''nan''"
  "float64 (pandas_example keeps) n = real_of_int (nearest_double n)"
  "float_column (pandas_example keeps) c = False"
  "float_series (pandas_example keeps) c = True"
  by (simp_all add: pandas_example_def)

lemma lat_of_other: "(\<And>a b. x \<noteq> Lst [a, b]) \<Longrightarrow> lat_of x = Null"
  by (cases x rule: lat_of.cases) auto

lemma lon_of_other: "(\<And>a b. x \<noteq> Lst [a, b]) \<Longrightarrow> lon_of x = Null"
  by (cases x rule: lon_of.cases) auto

lemma isna_stored [simp]: "isna (stored pd b x) \<longleftrightarrow> isna x"
  by (cases x) (simp_all add: stored_def)

lemma stored_Null [simp]: "stored pd b Null = Null"
  by (simp add: stored_def)

lemma isna_iff: "isna x \<longleftrightarrow> x = Null"
  by (cases x) simp_all

lemma not_empty_DataFrame:
  assumes "c \<in> set (columns (DataFrame pd recs))"
  shows "\<not> empty_df (DataFrame pd recs)"
proof -
  from assms have "recs \<noteq> []" by (auto simp: columns_DataFrame)
  then have "rows (DataFrame pd recs) \<noteq> []" by (simp add: rows_DataFrame)
  with assms show ?thesis by (auto simp: empty_df_def)
qed

lemma valid_pair:
  "\<not> isna (lat_of x) \<and> \<not> isna (lon_of x) \<longleftrightarrow> (\<exists>a b. x = Lst [a, b] \<and> \<not> isna a \<and> \<not> isna b)"
proof
  assume l: "\<not> isna (lat_of x) \<and> \<not> isna (lon_of x)"
  then have "\<exists>a b. x = Lst [a, b]" using lat_of_other[of x] by (auto simp: isna_iff)
  with l show "\<exists>a b. x = Lst [a, b] \<and> \<not> isna a \<and> \<not> isna b" by auto
qed auto

text \<open>The rows the cleaner keeps, when some record has \<open>coord_geo\<close>.\<close>

lemma complete_row1:
  assumes geo: "''coord_geo'' \<in> set (columns (DataFrame pd recs))"
  shows "complete_row [''lat'', ''lon''] (header1 pd recs) (row1 pd recs i)
     \<longleftrightarrow> (\<exists>a b. field (recs ! i) ''coord_geo'' = Lst [a, b] \<and> \<not> isna a \<and> \<not> isna b)"
proof -
  note h = header1_geo[OF geo]
  have "complete_row [''lat'', ''lon''] (header1 pd recs) (row1 pd recs i)
     \<longleftrightarrow> \<not> isna (lat_of (field (recs ! i) ''coord_geo''))
       \<and> \<not> isna (lon_of (field (recs ! i) ''coord_geo''))"
    using h
    by (simp add: complete_row_iff[OF header1_props(1) header1_props(3)] cell_at_row1_lat[OF geo])
  then show ?thesis by (simp only: valid_pair)
qed

lemma cleaned_cells:
  assumes ok: "clean_data pd (DataFrame pd recs) = Inr out"
    and ne: "\<not> empty_df (DataFrame pd recs)"
    and row: "(i, r) \<in> set (rows out)"
  shows "\<exists>j. \<forall>c. cell_at (columns out) r c
     = (if c = ''color'' then Some (Str ''#FF0000'')
        else if c = ''Ligne''
        then (case find (\<lambda>k. k = ''ligne'' \<or> k = ''Ligne'') (columns (DataFrame pd recs)) of
                None \<Rightarrow> Some (Str ''Inconnue'')
              | Some k \<Rightarrow>
                  Some (astype_str pd i j (stored pd (float_column pd k) (field (recs ! i) k))))
        else if c = ''Tarif''
        then (case find (\<lambda>k. k = ''tarif_gratuit_payant'' \<or> k = ''Tarif'')
                     (columns (DataFrame pd recs)) of
                None \<Rightarrow> Some (Str ''Inconnu'')
              | Some k \<Rightarrow>
                  Some (fillna (Str ''Inconnu'')
                         (stored pd (float_column pd k) (field (recs ! i) k))))
        else cell_at (map (renamed mapping) (header1 pd recs)) (row1 pd recs i) c)"
proof -
  let ?H = "map (renamed mapping) (header1 pd recs)"
  let ?R = "row1 pd recs i"
  note cr = cleaned_rows[OF ok ne]
  from cr(4) row have r: "r = std_row pd i ?H ?R" by blast
  have len: "length ?R = length ?H" by (simp add: header1_props(3))
  from cell_at_std_row[OF len, of pd i] obtain j where
    j: "\<And>c. cell_at (std_cols ?H) (std_row pd i ?H ?R) c
     = (if c = ''color'' then Some (Str ''#FF0000'')
        else if c = ''Ligne''
        then (if ''Ligne'' \<in> set ?H
              then map_option (astype_str pd i j) (cell_at ?H ?R ''Ligne'')
              else Some (Str ''Inconnue''))
        else if c = ''Tarif''
        then (if ''Tarif'' \<in> set ?H
              then map_option (fillna (Str ''Inconnu'')) (cell_at ?H ?R ''Tarif'')
              else Some (Str ''Inconnu''))
        else cell_at ?H ?R c)" by blast
  have fT: "find (\<lambda>k. renamed mapping k = ''Tarif'') (columns (DataFrame pd recs))
          = find (\<lambda>k. k = ''tarif_gratuit_payant'' \<or> k = ''Tarif'') (columns (DataFrame pd recs))"
    by (simp add: renamed_Tarif)
  have fL: "find (\<lambda>k. renamed mapping k = ''Ligne'') (columns (DataFrame pd recs))
          = find (\<lambda>k. k = ''ligne'' \<or> k = ''Ligne'') (columns (DataFrame pd recs))"
    by (simp add: renamed_Ligne)
  have cT: "cell_at ?H ?R ''Tarif''
     = (case find (\<lambda>k. k = ''tarif_gratuit_payant'' \<or> k = ''Tarif'') (columns (DataFrame pd recs)) of
          None \<Rightarrow> None
        | Some k \<Rightarrow> Some (stored pd (float_column pd k) (field (recs ! i) k)))"
    using cell_at_renamed_row1[of "''Tarif''" pd recs i] by (simp add: fT)
  have cL: "cell_at ?H ?R ''Ligne''
     = (case find (\<lambda>k. k = ''ligne'' \<or> k = ''Ligne'') (columns (DataFrame pd recs)) of
          None \<Rightarrow> None
        | Some k \<Rightarrow> Some (stored pd (float_column pd k) (field (recs ! i) k)))"
    using cell_at_renamed_row1[of "''Ligne''" pd recs i] by (simp add: fL)
  have inT: "''Tarif'' \<in> set ?H \<longleftrightarrow> cell_at ?H ?R ''Tarif'' \<noteq> None"
    using len by (simp add: cell_at_def map_of_zip_is_None[symmetric] del: map_of_eq_None_iff)
  have inL: "''Ligne'' \<in> set ?H \<longleftrightarrow> cell_at ?H ?R ''Ligne'' \<noteq> None"
    using len by (simp add: cell_at_def map_of_zip_is_None[symmetric] del: map_of_eq_None_iff)
  have "cell_at (columns out) r c
     = (if c = ''color'' then Some (Str ''#FF0000'')
        else if c = ''Ligne''
        then (case find (\<lambda>k. k = ''ligne'' \<or> k = ''Ligne'') (columns (DataFrame pd recs)) of
                None \<Rightarrow> Some (Str ''Inconnue'')
              | Some k \<Rightarrow>
                  Some (astype_str pd i j (stored pd (float_column pd k) (field (recs ! i) k))))
        else if c = ''Tarif''
        then (case find (\<lambda>k. k = ''tarif_gratuit_payant'' \<or> k = ''Tarif'')
                     (columns (DataFrame pd recs)) of
                None \<Rightarrow> Some (Str ''Inconnu'')
              | Some k \<Rightarrow>
                  Some (fillna (Str ''Inconnu'')
                         (stored pd (float_column pd k) (field (recs ! i) k))))
        else cell_at ?H ?R c)" for c
    unfolding cr(1) r j inT inL cT cL by (simp split: option.splits)
  then show ?thesis by blast
qed

lemma coordonnees_DataFrame:
  assumes geo: "''coord_geo'' \<in> set (columns (DataFrame pd recs))"
  shows "coordonnees pd (DataFrame pd recs)
     = \<lparr>columns = header1 pd recs, rows = map (\<lambda>i. (i, row1 pd recs i)) [0..<length recs]\<rparr>"
  using df1_rows[of pd recs] geo by simp

lemma is_text_iff: "is_text x \<longleftrightarrow> (\<exists>s. x = Str s)"
  by (cases x) simp_all

lemma astype_str_cases:
  "(keeps_missing pd \<and> isna x \<longrightarrow> astype_str pd i j x = Null)
   \<and> (\<not> (keeps_missing pd \<and> isna x) \<longrightarrow> (\<exists>s. astype_str pd i j x = Str s))
   \<and> (\<forall>s. x = Str s \<longrightarrow> astype_str pd i j x = Str s)"
  by (cases x) (simp_all add: astype_str_def)

subsection \<open>The filter\<close>

lemma Ligne_column_text:
  assumes ok: "clean_data pd (DataFrame pd recs) = Inr df"
    and ne: "\<not> empty_df (DataFrame pd recs)"
    and nomiss: "keeps_missing pd \<longrightarrow>
       (\<forall>(i, r) \<in> set (rows df). cell_at (columns df) r ''Ligne'' \<noteq> Some Null)"
  shows "\<exists>col. getitem df ''Ligne'' = Inr col \<and> list_all is_text col
            \<and> length col = length (rows df)"
proof -
  have L: "''Ligne'' \<in> set (columns df)"
    by (simp add: cleaned_rows(1)[OF ok ne] std_cols_def put_label_mem)
  have "is_text (cell_value (columns df) r ''Ligne'')" if mem: "(i, r) \<in> set (rows df)" for i r
  proof -
    from cleaned_cells[OF ok ne mem] obtain j where
      j: "cell_at (columns df) r ''Ligne''
       = (case find (\<lambda>k. k = ''ligne'' \<or> k = ''Ligne'') (columns (DataFrame pd recs)) of
            None \<Rightarrow> Some (Str ''Inconnue'')
          | Some k \<Rightarrow>
              Some (astype_str pd i j (stored pd (float_column pd k) (field (recs ! i) k))))"
      by auto
    show ?thesis
    proof (cases "find (\<lambda>k. k = ''ligne'' \<or> k = ''Ligne'') (columns (DataFrame pd recs))")
      case None
      with j show ?thesis by (simp add: cell_value_def)
    next
      case (Some k)
      define v where "v = stored pd (float_column pd k) (field (recs ! i) k)"
      from j Some have c: "cell_at (columns df) r ''Ligne'' = Some (astype_str pd i j v)"
        by (simp add: v_def)
      have "astype_str pd i j v \<noteq> Null"
      proof
        assume n: "astype_str pd i j v = Null"
        then have "keeps_missing pd" by (cases v) (simp_all add: astype_str_def split: if_splits)
        with nomiss mem have "cell_at (columns df) r ''Ligne'' \<noteq> Some Null" by blast
        with c n show False by simp
      qed
      then have "\<exists>s. astype_str pd i j v = Str s"
        using astype_str_cases[of pd v i j] by (cases "keeps_missing pd \<and> isna v") auto
      with c show ?thesis by (auto simp: cell_value_def)
    qed
  qed
  then show ?thesis using L by (auto simp: getitem_def list_all_iff)
qed

lemma lignes_dispo_text:
  assumes "count_list (columns df) ''Ligne'' \<le> 1" and "getitem df ''Ligne'' = Inr col"
    and "list_all is_text col"
  shows "\<exists>dispo. lignes_dispo df = Inr dispo \<and> set dispo = set col"
proof -
  have "Str ` text_of ` set col = set col"
    using assms(3) by (force simp: list_all_iff is_text_iff image_iff)
  then show ?thesis using assms
    by (simp add: lignes_dispo_def then_do_def image_image)
qed

lemma filter_all_flags:
  "length ys = length xs \<Longrightarrow> list_all (\<lambda>b. b) ys \<Longrightarrow> map fst (filter snd (zip xs ys)) = xs"
  by (induction xs ys rule: list_induct2') auto

lemma boolean_index_all:
  "length flags = length (rows df) \<Longrightarrow> list_all (\<lambda>b. b) flags \<Longrightarrow> boolean_index df flags = df"
  by (simp add: boolean_index_def filter_all_flags)

lemma clean_data_empty:
  "empty_df df \<Longrightarrow> clean_data pd df = Inr df"
  by (simp add: clean_data_def)

lemma clean_data_obj_result:
  assumes "p < length h"
  shows "case clean_data pd (h ! p) of
           Inl e \<Rightarrow> fst (clean_data_obj pd p h) = Inl e
         | Inr d \<Rightarrow> \<exists>q. fst (clean_data_obj pd p h) = Inr q
                       \<and> q < length (snd (clean_data_obj pd p h))
                       \<and> snd (clean_data_obj pd p h) ! q = d"
  using assms
  by (auto simp: clean_data_obj_def clean_data_def alloc_def in_place_def Let_def nth_append
      split: sum.splits)

lemma comprehension_fields:
  "map fields_of rs = map (\<lambda>f. Inr (Dict f)) recs \<Longrightarrow>
     comprehension fields_of rs = Inr (map Dict recs)"
  by (induction rs arbitrary: recs) (auto simp: then_do_def)

lemma DataFrame_of_records: "DataFrame_of pd other (map Dict recs) = Inr (DataFrame pd recs)"
proof -
  have "those (map members (map Dict recs)) = Some recs"
    by (induction recs) auto
  then show ?thesis unfolding DataFrame_of_def by simp
qed

section \<open>The claims\<close>

text \<open>
  Claim C1 says that cleaning never raises, and in particular returns a table for a
  non-empty record list without any coordinate field. The code does not: on every table
  that is not empty and has none of the columns \<open>coord_geo\<close>, \<open>lat\<close> and \<open>lon\<close>,
  \<^verbatim>\<open>dropna\<close> raises \<open>KeyError\<close> and so does \<^verbatim>\<open>clean_data\<close>.
\<close>

theorem raises_without_coordinates:
  assumes "\<not> empty_df df" and "''coord_geo'' \<notin> set (columns df)"
    and "''lat'' \<notin> set (columns df)" and "''lon'' \<notin> set (columns df)"
  shows "clean_data pd df = Inl (KeyError [''lat'', ''lon''])"
  using assms by (simp add: clean_data_def dropna_def)

theorem raises_without_coordinates_witness:
  "\<not> empty_df (DataFrame (pandas_example False)
                  [[(''station'', Str ''Nation''), (''tarif_gratuit_payant'', Str ''Gratuit'')]])
   \<and> clean_data (pandas_example False)
        (DataFrame (pandas_example False)
           [[(''station'', Str ''Nation''), (''tarif_gratuit_payant'', Str ''Gratuit'')]])
       = Inl (KeyError [''lat'', ''lon''])"
  using raises_without_coordinates
    [of "DataFrame (pandas_example False)
           [[(''station'', Str ''Nation''), (''tarif_gratuit_payant'', Str ''Gratuit'')]]"
        "pandas_example False"]
  by (simp add: frame_defs)

text \<open>
  Claim C2 says that cleaning the single record \<open>{"ligne": "4"}\<close> returns a table with
  zero rows. The code raises \<open>KeyError\<close> on it.
\<close>

theorem scenario_ligne_4:
  "clean_data pd (DataFrame pd [[(''ligne'', Str ''4'')]]) = Inl (KeyError [''lat'', ''lon''])"
  by (simp add: frame_defs clean_data_def dropna_def)

text \<open>
  Claim C3 says that the Home page shows a failure banner when the table is empty. After
  a fetch that failed with status 500 the table is empty, the cleaner and the filter pass
  it on, and the page shows its title and the success banner, and nothing else.
\<close>

theorem accueil_after_failed_fetch:
  "load_data_from_api pd other (Inr \<lparr>status_code = 500, json = body\<rparr>)
     = ([Erreur_connexion], no_frame)
   \<and> clean_data pd no_frame = Inr no_frame
   \<and> df_filtre multiselect no_frame = Inr no_frame
   \<and> accueil no_frame no_frame = ([Title titre_accueil, Success message_succes], None)"
  by (simp add: load_data_from_api_def try_load_def then_do_def no_frame_def clean_data_def
      empty_df_def df_filtre_def accueil_def)

text \<open>
  Claim C4 says that cleaning assigns element 0 of a two-element coordinate value to
  \<open>lat\<close> and element 1 to \<open>lon\<close>. It does not when an element is an integer that no
  double represents and pandas stores the new column as float64, as it does when another
  record has no coordinates: of the two records \<open>{"coord_geo": [9007199254740993, 2]}\<close>
  and \<open>{"coord_geo": null}\<close> the cleaner keeps the first, with the float
  9007199254740992 under \<open>lat\<close>.
\<close>

theorem rounded_coordinate_counterexample:
  "clean_data (pandas_example False)
     (DataFrame (pandas_example False)
        [[(''coord_geo'', Lst [PyInt 9007199254740993, PyInt 2])], [(''coord_geo'', Null)]])
   = Inr \<lparr>columns = [''coord_geo'', ''lat'', ''lon'', ''Tarif'', ''Ligne'', ''color''],
          rows = [(0, [Lst [PyInt 9007199254740993, PyInt 2], PyFloat 9007199254740992,
                       PyFloat 2, Str ''Inconnu'', Str ''Inconnue'', Str ''#FF0000''])]\<rparr>
   \<and> PyFloat 9007199254740992 \<noteq> (PyInt 9007199254740993 :: real cell)"
  by (simp add: frame_defs clean_defs Let_def nearest_double_example nearest_double_small)

text \<open>
  Claim C4, amended. Let some record have the field \<open>coord_geo\<close>. Lines 47 and 48 give
  every row, under \<open>lat\<close> and \<open>lon\<close>, elements 0 and 1 of the \<open>coord_geo\<close> value
  of its record when that value is a list of two elements, as the new column stores them
  (an integer becomes a float64 when pandas stores the column as float64, every other
  element is kept), and a missing value under both when the value is anything else (a
  missing field included); the row of record \<open>i\<close> is row \<open>i\<close>. The cleaner then
  returns a table. Its rows are, in order and under their index labels, those of the
  records whose \<open>coord_geo\<close> is a list of two elements of which none is missing, and
  each of them holds the two elements, as stored, under \<open>lat\<close> and \<open>lon\<close>.
\<close>

theorem coordinates_assigned:
  assumes geo: "''coord_geo'' \<in> set (columns (DataFrame pd recs))"
  shows "(\<forall>i<length recs. \<exists>r.
            rows (coordonnees pd (DataFrame pd recs)) ! i = (i, r)
          \<and> (\<forall>a b. field (recs ! i) ''coord_geo'' = Lst [a, b] \<longrightarrow>
                cell_at (columns (coordonnees pd (DataFrame pd recs))) r ''lat''
                  = Some (stored pd (float_series pd ''lat'') a)
              \<and> cell_at (columns (coordonnees pd (DataFrame pd recs))) r ''lon''
                  = Some (stored pd (float_series pd ''lon'') b))
          \<and> ((\<forall>a b. field (recs ! i) ''coord_geo'' \<noteq> Lst [a, b]) \<longrightarrow>
                cell_at (columns (coordonnees pd (DataFrame pd recs))) r ''lat'' = Some Null
              \<and> cell_at (columns (coordonnees pd (DataFrame pd recs))) r ''lon'' = Some Null))
     \<and> (\<exists>out. clean_data pd (DataFrame pd recs) = Inr out
          \<and> map fst (rows out)
              = filter (\<lambda>i. \<exists>a b. field (recs ! i) ''coord_geo'' = Lst [a, b]
                                 \<and> \<not> isna a \<and> \<not> isna b) [0..<length recs]
          \<and> (\<forall>(i, r) \<in> set (rows out). \<exists>a b.
                field (recs ! i) ''coord_geo'' = Lst [a, b]
              \<and> cell_at (columns out) r ''lat'' = Some (stored pd (float_series pd ''lat'') a)
              \<and> cell_at (columns out) r ''lon'' = Some (stored pd (float_series pd ''lon'') b)))"
proof (rule conjI)
  note co = coordonnees_DataFrame[OF geo]
  note cells = cell_at_row1_lat[OF geo]
  show "\<forall>i<length recs. \<exists>r.
            rows (coordonnees pd (DataFrame pd recs)) ! i = (i, r)
          \<and> (\<forall>a b. field (recs ! i) ''coord_geo'' = Lst [a, b] \<longrightarrow>
                cell_at (columns (coordonnees pd (DataFrame pd recs))) r ''lat''
                  = Some (stored pd (float_series pd ''lat'') a)
              \<and> cell_at (columns (coordonnees pd (DataFrame pd recs))) r ''lon''
                  = Some (stored pd (float_series pd ''lon'') b))
          \<and> ((\<forall>a b. field (recs ! i) ''coord_geo'' \<noteq> Lst [a, b]) \<longrightarrow>
                cell_at (columns (coordonnees pd (DataFrame pd recs))) r ''lat'' = Some Null
              \<and> cell_at (columns (coordonnees pd (DataFrame pd recs))) r ''lon'' = Some Null)"
  proof (intro allI impI)
    fix i assume i: "i < length recs"
    have row: "rows (coordonnees pd (DataFrame pd recs)) ! i = (i, row1 pd recs i)"
      using i by (simp add: co)
    have two: "cell_at (columns (coordonnees pd (DataFrame pd recs))) (row1 pd recs i) ''lat''
                  = Some (stored pd (float_series pd ''lat'') a)
              \<and> cell_at (columns (coordonnees pd (DataFrame pd recs))) (row1 pd recs i) ''lon''
                  = Some (stored pd (float_series pd ''lon'') b)"
      if "field (recs ! i) ''coord_geo'' = Lst [a, b]" for a b
      using that by (simp add: co cells)
    have other: "cell_at (columns (coordonnees pd (DataFrame pd recs))) (row1 pd recs i) ''lat''
                  = Some Null
              \<and> cell_at (columns (coordonnees pd (DataFrame pd recs))) (row1 pd recs i) ''lon''
                  = Some Null"
      if "\<forall>a b. field (recs ! i) ''coord_geo'' \<noteq> Lst [a, b]"
      using that by (simp add: co cells lat_of_other lon_of_other)
    from row two other
    show "\<exists>r. rows (coordonnees pd (DataFrame pd recs)) ! i = (i, r)
          \<and> (\<forall>a b. field (recs ! i) ''coord_geo'' = Lst [a, b] \<longrightarrow>
                cell_at (columns (coordonnees pd (DataFrame pd recs))) r ''lat''
                  = Some (stored pd (float_series pd ''lat'') a)
              \<and> cell_at (columns (coordonnees pd (DataFrame pd recs))) r ''lon''
                  = Some (stored pd (float_series pd ''lon'') b))
          \<and> ((\<forall>a b. field (recs ! i) ''coord_geo'' \<noteq> Lst [a, b]) \<longrightarrow>
                cell_at (columns (coordonnees pd (DataFrame pd recs))) r ''lat'' = Some Null
              \<and> cell_at (columns (coordonnees pd (DataFrame pd recs))) r ''lon'' = Some Null)"
      by blast
  qed
next
  note ne = not_empty_DataFrame[OF geo]
  note h = header1_geo[OF geo]
  let ?H = "map (renamed mapping) (header1 pd recs)"
  define out where "out = \<lparr>columns = std_cols ?H,
      rows = map (\<lambda>i. (i, std_row pd i ?H (row1 pd recs i)))
               (filter (\<lambda>i. complete_row [''lat'', ''lon''] (header1 pd recs) (row1 pd recs i))
                  [0..<length recs])\<rparr>"
  have ok: "clean_data pd (DataFrame pd recs) = Inr out"
    using h by (simp add: clean_data_DataFrame[OF ne] out_def)
  have idx: "map fst (rows out)
      = filter (\<lambda>i. \<exists>a b. field (recs ! i) ''coord_geo'' = Lst [a, b]
                         \<and> \<not> isna a \<and> \<not> isna b) [0..<length recs]"
    by (simp add: out_def comp_def complete_row1[OF geo])
  have cells: "\<exists>a b. field (recs ! i) ''coord_geo'' = Lst [a, b]
              \<and> cell_at (columns out) r ''lat'' = Some (stored pd (float_series pd ''lat'') a)
              \<and> cell_at (columns out) r ''lon'' = Some (stored pd (float_series pd ''lon'') b)"
    if mem: "(i, r) \<in> set (rows out)" for i r
  proof -
    note cr = cleaned_rows[OF ok ne]
    from mem cr(4) have c: "complete_row [''lat'', ''lon''] (header1 pd recs) (row1 pd recs i)"
      by blast
    then obtain a b where ab: "field (recs ! i) ''coord_geo'' = Lst [a, b]"
      unfolding complete_row1[OF geo] by blast
    from cleaned_cells[OF ok ne mem] obtain j where
      j: "\<And>c. cell_at (columns out) r c
       = (if c = ''color'' then Some (Str ''#FF0000'')
          else if c = ''Ligne''
          then (case find (\<lambda>k. k = ''ligne'' \<or> k = ''Ligne'') (columns (DataFrame pd recs)) of
                  None \<Rightarrow> Some (Str ''Inconnue'')
                | Some k \<Rightarrow>
                    Some (astype_str pd i j (stored pd (float_column pd k) (field (recs ! i) k))))
          else if c = ''Tarif''
          then (case find (\<lambda>k. k = ''tarif_gratuit_payant'' \<or> k = ''Tarif'')
                       (columns (DataFrame pd recs)) of
                  None \<Rightarrow> Some (Str ''Inconnu'')
                | Some k \<Rightarrow>
                    Some (fillna (Str ''Inconnu'')
                           (stored pd (float_column pd k) (field (recs ! i) k))))
          else cell_at ?H (row1 pd recs i) c)" by blast
    have "cell_at (columns out) r ''lat'' = Some (stored pd (float_series pd ''lat'') a)"
      using h by (simp add: j cell_at_renamed_row1_lat cell_at_row1_lat[OF geo] ab)
    moreover have "cell_at (columns out) r ''lon'' = Some (stored pd (float_series pd ''lon'') b)"
      using h by (simp add: j cell_at_renamed_row1_lon cell_at_row1_lat[OF geo] ab)
    ultimately show ?thesis using ab by blast
  qed
  from ok idx cells
  show "\<exists>out. clean_data pd (DataFrame pd recs) = Inr out
          \<and> map fst (rows out)
              = filter (\<lambda>i. \<exists>a b. field (recs ! i) ''coord_geo'' = Lst [a, b]
                                 \<and> \<not> isna a \<and> \<not> isna b) [0..<length recs]
          \<and> (\<forall>(i, r) \<in> set (rows out). \<exists>a b.
                field (recs ! i) ''coord_geo'' = Lst [a, b]
              \<and> cell_at (columns out) r ''lat'' = Some (stored pd (float_series pd ''lat'') a)
              \<and> cell_at (columns out) r ''lon'' = Some (stored pd (float_series pd ''lon'') b))"
    by blast
qed

theorem coordinates_assigned_witness:
  "''coord_geo'' \<in> set (columns (DataFrame (pandas_example False)
       [[(''coord_geo'', Lst [PyFloat 48.85, PyInt 2])], [(''coord_geo'', Str ''48.85,2'')],
        [(''ligne'', Str ''4'')]]))
   \<and> (\<exists>r. rows (coordonnees (pandas_example False) (DataFrame (pandas_example False)
               [[(''coord_geo'', Lst [PyFloat 48.85, PyInt 2])], [(''coord_geo'', Str ''48.85,2'')],
                [(''ligne'', Str ''4'')]])) ! 0 = (0, r)
        \<and> cell_at [''coord_geo'', ''ligne'', ''lat'', ''lon''] r ''lat'' = Some (PyFloat 48.85)
        \<and> cell_at [''coord_geo'', ''ligne'', ''lat'', ''lon''] r ''lon'' = Some (PyFloat 2))
   \<and> (\<exists>r. rows (coordonnees (pandas_example False) (DataFrame (pandas_example False)
               [[(''coord_geo'', Lst [PyFloat 48.85, PyInt 2])], [(''coord_geo'', Str ''48.85,2'')],
                [(''ligne'', Str ''4'')]])) ! 1 = (1, r)
        \<and> cell_at [''coord_geo'', ''ligne'', ''lat'', ''lon''] r ''lat'' = Some Null
        \<and> cell_at [''coord_geo'', ''ligne'', ''lat'', ''lon''] r ''lon'' = Some Null)
   \<and> (\<exists>out. clean_data (pandas_example False) (DataFrame (pandas_example False)
               [[(''coord_geo'', Lst [PyFloat 48.85, PyInt 2])], [(''coord_geo'', Str ''48.85,2'')],
                [(''ligne'', Str ''4'')]]) = Inr out
        \<and> map fst (rows out) = [0])"
proof -
  let ?pd = "pandas_example False"
  let ?recs = "[[(''coord_geo'', Lst [PyFloat 48.85, PyInt 2])], [(''coord_geo'', Str ''48.85,2'')],
                [(''ligne'', Str ''4'')]] :: (string \<times> real cell) list list"
  have geo: "''coord_geo'' \<in> set (columns (DataFrame ?pd ?recs))" by (simp add: frame_defs)
  have cols: "columns (coordonnees ?pd (DataFrame ?pd ?recs))
                = [''coord_geo'', ''ligne'', ''lat'', ''lon'']"
    by (simp add: frame_defs clean_defs Let_def)
  have f0: "field (?recs ! 0) ''coord_geo'' = Lst [PyFloat 48.85, PyInt 2]"
    and f1: "field (?recs ! 1) ''coord_geo'' = Str ''48.85,2''"
    and f2: "field (?recs ! 2) ''coord_geo'' = Null"
    by (simp_all add: field_def)
  have idx: "filter (\<lambda>i. \<exists>a b. field (?recs ! i) ''coord_geo'' = Lst [a, b]
                                 \<and> \<not> isna a \<and> \<not> isna b) [0..<length ?recs] = [0]"
  proof -
    have u: "[0..<length ?recs] = [0, 1, 2]" by (simp add: upt_rec)
    show ?thesis unfolding u using f0 f1 f2 by (simp del: nth_Cons_0 nth_Cons_Suc)
  qed
  note t = coordinates_assigned[OF geo]
  from t have a: "\<forall>i<length ?recs. \<exists>r.
            rows (coordonnees ?pd (DataFrame ?pd ?recs)) ! i = (i, r)
          \<and> (\<forall>a b. field (?recs ! i) ''coord_geo'' = Lst [a, b] \<longrightarrow>
                cell_at (columns (coordonnees ?pd (DataFrame ?pd ?recs))) r ''lat''
                  = Some (stored ?pd (float_series ?pd ''lat'') a)
              \<and> cell_at (columns (coordonnees ?pd (DataFrame ?pd ?recs))) r ''lon''
                  = Some (stored ?pd (float_series ?pd ''lon'') b))
          \<and> ((\<forall>a b. field (?recs ! i) ''coord_geo'' \<noteq> Lst [a, b]) \<longrightarrow>
                cell_at (columns (coordonnees ?pd (DataFrame ?pd ?recs))) r ''lat'' = Some Null
              \<and> cell_at (columns (coordonnees ?pd (DataFrame ?pd ?recs))) r ''lon'' = Some Null)"
    by (rule conjunct1)
  from t have "\<exists>out. clean_data ?pd (DataFrame ?pd ?recs) = Inr out
        \<and> map fst (rows out) = [0]
        \<and> (\<forall>(i, r) \<in> set (rows out). \<exists>a b.
                field (?recs ! i) ''coord_geo'' = Lst [a, b]
              \<and> cell_at (columns out) r ''lat'' = Some (stored ?pd (float_series ?pd ''lat'') a)
              \<and> cell_at (columns out) r ''lon'' = Some (stored ?pd (float_series ?pd ''lon'') b))"
    unfolding idx by (rule conjunct2)
  then obtain out where out: "clean_data ?pd (DataFrame ?pd ?recs) = Inr out
        \<and> map fst (rows out) = [0]
        \<and> (\<forall>(i, r) \<in> set (rows out). \<exists>a b.
                field (?recs ! i) ''coord_geo'' = Lst [a, b]
              \<and> cell_at (columns out) r ''lat'' = Some (stored ?pd (float_series ?pd ''lat'') a)
              \<and> cell_at (columns out) r ''lon'' = Some (stored ?pd (float_series ?pd ''lon'') b))" ..
  then have "clean_data ?pd (DataFrame ?pd ?recs) = Inr out \<and> map fst (rows out) = [0]"
    by (intro conjI) (erule conjunct1, erule conjunct2[THEN conjunct1])
  then have b: "\<exists>out. clean_data ?pd (DataFrame ?pd ?recs) = Inr out
        \<and> map fst (rows out) = [0]" ..
  have s: "stored ?pd (float_series ?pd c) (PyFloat 48.85) = PyFloat 48.85"
    "stored ?pd (float_series ?pd c) (PyInt 2) = PyFloat 2" for c
    by (simp_all add: stored_def nearest_double_small)
  have l0: "(0::nat) < length ?recs" and l1: "(1::nat) < length ?recs" by simp_all
  from a[THEN spec, THEN mp, OF l0] obtain r0 where
    r0: "rows (coordonnees ?pd (DataFrame ?pd ?recs)) ! 0 = (0, r0)"
    and c0: "\<forall>a b. field (?recs ! 0) ''coord_geo'' = Lst [a, b] \<longrightarrow>
                cell_at (columns (coordonnees ?pd (DataFrame ?pd ?recs))) r0 ''lat''
                  = Some (stored ?pd (float_series ?pd ''lat'') a)
              \<and> cell_at (columns (coordonnees ?pd (DataFrame ?pd ?recs))) r0 ''lon''
                  = Some (stored ?pd (float_series ?pd ''lon'') b)"
    by (elim exE conjE)
  from c0[THEN spec, THEN spec, THEN mp, OF f0]
  have r0': "\<exists>r. rows (coordonnees ?pd (DataFrame ?pd ?recs)) ! 0 = (0, r)
        \<and> cell_at [''coord_geo'', ''ligne'', ''lat'', ''lon''] r ''lat'' = Some (PyFloat 48.85)
        \<and> cell_at [''coord_geo'', ''ligne'', ''lat'', ''lon''] r ''lon'' = Some (PyFloat 2)"
    unfolding cols s using r0 by (intro exI[of _ r0] conjI) simp_all
  from a[THEN spec, THEN mp, OF l1] obtain r1 where
    r1: "rows (coordonnees ?pd (DataFrame ?pd ?recs)) ! 1 = (1, r1)"
    and c1: "(\<forall>a b. field (?recs ! 1) ''coord_geo'' \<noteq> Lst [a, b]) \<longrightarrow>
                cell_at (columns (coordonnees ?pd (DataFrame ?pd ?recs))) r1 ''lat'' = Some Null
              \<and> cell_at (columns (coordonnees ?pd (DataFrame ?pd ?recs))) r1 ''lon'' = Some Null"
    by (elim exE conjE)
  have n1: "\<forall>a b. field (?recs ! 1) ''coord_geo'' \<noteq> Lst [a, b]"
    unfolding f1 by simp
  from c1[THEN mp, OF n1]
  have r1': "\<exists>r. rows (coordonnees ?pd (DataFrame ?pd ?recs)) ! 1 = (1, r)
        \<and> cell_at [''coord_geo'', ''ligne'', ''lat'', ''lon''] r ''lat'' = Some Null
        \<and> cell_at [''coord_geo'', ''ligne'', ''lat'', ''lon''] r ''lon'' = Some Null"
    unfolding cols using r1 by (intro exI[of _ r1] conjI) simp_all
  from geo r0' r1' b show ?thesis by (intro conjI)
qed

text \<open>
  Claim C5. Cleaning the single record with \<open>coord_geo = [48.85, 2.35]\<close>,
  \<open>ligne = "1"\<close> and \<open>tarif_gratuit_payant = "Payant"\<close> gives exactly one row, in which
  \<open>Ligne\<close> is \<open>"1"\<close>, \<open>Tarif\<close> is \<open>"Payant"\<close>, \<open>lat\<close> is 48.85, \<open>lon\<close> is 2.35
  and \<open>color\<close> is \<open>"#FF0000"\<close>. (The row keeps its \<open>coord_geo\<close> cell as well.)
\<close>

theorem scenario_payant:
  "let cs = [''coord_geo'', ''Ligne'', ''Tarif'', ''lat'', ''lon'', ''color''];
       r = [Lst [PyFloat 48.85, PyFloat 2.35], Str ''1'', Str ''Payant'', PyFloat 48.85,
            PyFloat 2.35, Str ''#FF0000'']
   in clean_data pd
        (DataFrame pd [[(''coord_geo'', Lst [PyFloat (48.85 :: real), PyFloat 2.35]),
                        (''ligne'', Str ''1''),
                        (''tarif_gratuit_payant'', Str ''Payant'')]])
        = Inr \<lparr>columns = cs, rows = [(0, r)]\<rparr>
      \<and> cell_at cs r ''Ligne'' = Some (Str ''1'')
      \<and> cell_at cs r ''Tarif'' = Some (Str ''Payant'')
      \<and> cell_at cs r ''lat'' = Some (PyFloat 48.85)
      \<and> cell_at cs r ''lon'' = Some (PyFloat 2.35)
      \<and> cell_at cs r ''color'' = Some (Str ''#FF0000'')"
  by (simp add: frame_defs clean_defs Let_def)

text \<open>
  Claim C6 says that every row of the cleaned table has \<open>Tarif\<close> and \<open>Ligne\<close> and
  that neither is missing. It fails on a raw table that is empty in the sense of
  \<^verbatim>\<open>df.empty\<close>: line 33 returns such a table unchanged, and the table built from
  one record without any field has one row and no column. It fails as well where
  \<^verbatim>\<open>astype(str)\<close> keeps missing values (pandas 3): the row of a record without
  \<open>ligne\<close>, beside a record that has it, keeps a missing value under \<open>Ligne\<close>.
\<close>

theorem empty_record_counterexample:
  "clean_data (pandas_example False) (DataFrame (pandas_example False) [[]])
     = Inr \<lparr>columns = [], rows = [(0, [])]\<rparr>
   \<and> cell_at [] ([] :: real cell list) ''Tarif'' = None
   \<and> cell_at [] ([] :: real cell list) ''Ligne'' = None
   \<and> clean_data (pandas_example True)
       (DataFrame (pandas_example True)
          [[(''coord_geo'', Lst [PyFloat 48.85, PyFloat 2.35]), (''ligne'', Str ''1'')],
           [(''coord_geo'', Lst [PyFloat 48.86, PyFloat 2.34])]])
     = Inr \<lparr>columns = [''coord_geo'', ''Ligne'', ''lat'', ''lon'', ''Tarif'', ''color''],
            rows = [(0, [Lst [PyFloat 48.85, PyFloat 2.35], Str ''1'', PyFloat 48.85,
                         PyFloat 2.35, Str ''Inconnu'', Str ''#FF0000'']),
                    (1, [Lst [PyFloat 48.86, PyFloat 2.34], Null, PyFloat 48.86,
                         PyFloat 2.34, Str ''Inconnu'', Str ''#FF0000''])]\<rparr>
   \<and> cell_at [''coord_geo'', ''Ligne'', ''lat'', ''lon'', ''Tarif'', ''color'']
        [Lst [PyFloat 48.86, PyFloat 2.34], Null, PyFloat 48.86, PyFloat 2.34, Str ''Inconnu'',
         Str ''#FF0000'' :: real cell] ''Ligne'' = Some Null"
  by (simp add: frame_defs clean_defs Let_def)

text \<open>
  Claim C6, amended. When the raw table is not empty, every row of the cleaned table is
  the row of a record and has a cell under \<open>Tarif\<close> and a cell under \<open>Ligne\<close>.
  \<open>Tarif\<close> is never missing: it is the value, as stored, that the record has in the
  first column of the raw table labelled \<open>tarif_gratuit_payant\<close> or \<open>Tarif\<close>, with
  \<open>"Inconnu"\<close> in place of a missing value, and it is \<open>"Inconnu"\<close> when the raw table
  has no such column. \<open>Ligne\<close> is \<open>"Inconnue"\<close> when the raw table has no column
  labelled \<open>ligne\<close> or \<open>Ligne\<close>; otherwise it is what \<^verbatim>\<open>astype(str)\<close> makes of
  the value, as stored, that the record has in the first such column: that text when the
  value is a text, a missing value when the value is missing and \<^verbatim>\<open>astype(str)\<close>
  keeps missing values (pandas 3), and a text in every other case.
\<close>

theorem cleaned_rows_tarif_ligne:
  assumes ok: "clean_data pd (DataFrame pd recs) = Inr df"
    and ne: "\<not> empty_df (DataFrame pd recs)"
    and row: "(i, r) \<in> set (rows df)"
  shows "i < length recs
     \<and> (\<exists>t. cell_at (columns df) r ''Tarif'' = Some t \<and> \<not> isna t
          \<and> t = (case find (\<lambda>k. k = ''tarif_gratuit_payant'' \<or> k = ''Tarif'')
                        (columns (DataFrame pd recs)) of
                   None \<Rightarrow> Str ''Inconnu''
                 | Some k \<Rightarrow>
                     fillna (Str ''Inconnu'')
                       (stored pd (float_column pd k) (field (recs ! i) k))))
     \<and> (\<exists>x. cell_at (columns df) r ''Ligne'' = Some x
          \<and> (case find (\<lambda>k. k = ''ligne'' \<or> k = ''Ligne'') (columns (DataFrame pd recs)) of
               None \<Rightarrow> x = Str ''Inconnue''
             | Some k \<Rightarrow>
                 (\<exists>j. x = astype_str pd i j (stored pd (float_column pd k) (field (recs ! i) k)))
               \<and> (\<forall>s. field (recs ! i) k = Str s \<longrightarrow> x = Str s)
               \<and> (if keeps_missing pd \<and> isna (field (recs ! i) k)
                  then x = Null else \<exists>s. x = Str s)))"
proof -
  from cleaned_rows(4)[OF ok ne] row have i: "i < length recs" by blast
  from cleaned_cells[OF ok ne row] obtain j where
    j: "\<And>c. cell_at (columns df) r c
     = (if c = ''color'' then Some (Str ''#FF0000'')
        else if c = ''Ligne''
        then (case find (\<lambda>k. k = ''ligne'' \<or> k = ''Ligne'') (columns (DataFrame pd recs)) of
                None \<Rightarrow> Some (Str ''Inconnue'')
              | Some k \<Rightarrow>
                  Some (astype_str pd i j (stored pd (float_column pd k) (field (recs ! i) k))))
        else if c = ''Tarif''
        then (case find (\<lambda>k. k = ''tarif_gratuit_payant'' \<or> k = ''Tarif'')
                     (columns (DataFrame pd recs)) of
                None \<Rightarrow> Some (Str ''Inconnu'')
              | Some k \<Rightarrow>
                  Some (fillna (Str ''Inconnu'')
                         (stored pd (float_column pd k) (field (recs ! i) k))))
        else cell_at (map (renamed mapping) (header1 pd recs)) (row1 pd recs i) c)" by blast
  define t where "t = (case find (\<lambda>k. k = ''tarif_gratuit_payant'' \<or> k = ''Tarif'')
                        (columns (DataFrame pd recs)) of
                   None \<Rightarrow> Str ''Inconnu''
                 | Some k \<Rightarrow>
                     fillna (Str ''Inconnu'')
                       (stored pd (float_column pd k) (field (recs ! i) k)))"
  have t1: "cell_at (columns df) r ''Tarif'' = Some t"
    by (simp add: j t_def split: option.splits)
  have t2: "\<not> isna t" by (simp add: t_def fillna_def split: option.splits)
  have T: "\<exists>t. cell_at (columns df) r ''Tarif'' = Some t \<and> \<not> isna t
          \<and> t = (case find (\<lambda>k. k = ''tarif_gratuit_payant'' \<or> k = ''Tarif'')
                        (columns (DataFrame pd recs)) of
                   None \<Rightarrow> Str ''Inconnu''
                 | Some k \<Rightarrow>
                     fillna (Str ''Inconnu'')
                       (stored pd (float_column pd k) (field (recs ! i) k)))"
    using t1 t2 t_def by blast
  define x where "x = (case find (\<lambda>k. k = ''ligne'' \<or> k = ''Ligne'')
                        (columns (DataFrame pd recs)) of
                None \<Rightarrow> Str ''Inconnue''
              | Some k \<Rightarrow> astype_str pd i j (stored pd (float_column pd k) (field (recs ! i) k)))"
  have x1: "cell_at (columns df) r ''Ligne'' = Some x"
    by (simp add: j x_def split: option.splits)
  have x2: "case find (\<lambda>k. k = ''ligne'' \<or> k = ''Ligne'') (columns (DataFrame pd recs)) of
               None \<Rightarrow> x = Str ''Inconnue''
             | Some k \<Rightarrow>
                 (\<exists>j. x = astype_str pd i j (stored pd (float_column pd k) (field (recs ! i) k)))
               \<and> (\<forall>s. field (recs ! i) k = Str s \<longrightarrow> x = Str s)
               \<and> (if keeps_missing pd \<and> isna (field (recs ! i) k)
                  then x = Null else \<exists>s. x = Str s)"
  proof (cases "find (\<lambda>k. k = ''ligne'' \<or> k = ''Ligne'') (columns (DataFrame pd recs))")
    case None
    then show ?thesis by (simp add: x_def)
  next
    case (Some k)
    then have x: "x = astype_str pd i j (stored pd (float_column pd k) (field (recs ! i) k))"
      by (simp add: x_def)
    note c = astype_str_cases[of pd "stored pd (float_column pd k) (field (recs ! i) k)" i j,
        folded x]
    have s: "x = Str s" if "field (recs ! i) k = Str s" for s
      using c that by (simp add: stored_def)
    have m: "if keeps_missing pd \<and> isna (field (recs ! i) k) then x = Null else \<exists>s. x = Str s"
      using c by simp
    show ?thesis unfolding Some option.case
    proof (intro conjI)
      show "\<exists>j. x = astype_str pd i j (stored pd (float_column pd k) (field (recs ! i) k))"
        using x by blast
      show "\<forall>s. field (recs ! i) k = Str s \<longrightarrow> x = Str s" using s by blast
      show "if keeps_missing pd \<and> isna (field (recs ! i) k) then x = Null else \<exists>s. x = Str s"
        by (rule m)
    qed
  qed
  from i T x1 x2 show ?thesis by blast
qed

theorem cleaned_rows_tarif_ligne_witness:
  "clean_data (pandas_example False)
     (DataFrame (pandas_example False)
        [[(''coord_geo'', Lst [PyFloat 48.85, PyFloat 2.35]), (''ligne'', Str ''4'')],
         [(''coord_geo'', Lst [PyFloat 48.86, PyFloat 2.34]),
          (''tarif_gratuit_payant'', Str ''Gratuit'')]])
     = Inr \<lparr>columns = [''coord_geo'', ''Ligne'', ''Tarif'', ''lat'', ''lon'', ''color''],
            rows = [(0, [Lst [PyFloat 48.85, PyFloat 2.35], Str ''4'', Str ''Inconnu'',
                         PyFloat 48.85, PyFloat 2.35, Str ''#FF0000'']),
                    (1, [Lst [PyFloat 48.86, PyFloat 2.34], Str ''nan'', Str ''Gratuit'',
                         PyFloat 48.86, PyFloat 2.34, Str ''#FF0000''])]\<rparr>
   \<and> \<not> empty_df (DataFrame (pandas_example False)
        [[(''coord_geo'', Lst [PyFloat 48.85, PyFloat 2.35]), (''ligne'', Str ''4'')],
         [(''coord_geo'', Lst [PyFloat 48.86, PyFloat 2.34]),
          (''tarif_gratuit_payant'', Str ''Gratuit'')]])
   \<and> cell_at [''coord_geo'', ''Ligne'', ''Tarif'', ''lat'', ''lon'', ''color'']
        [Lst [PyFloat 48.85, PyFloat 2.35], Str ''4'', Str ''Inconnu'',
         PyFloat 48.85, PyFloat 2.35, Str ''#FF0000'' :: real cell] ''Tarif''
       = Some (fillna (Str ''Inconnu'') Null)
   \<and> cell_at [''coord_geo'', ''Ligne'', ''Tarif'', ''lat'', ''lon'', ''color'']
        [Lst [PyFloat 48.85, PyFloat 2.35], Str ''4'', Str ''Inconnu'',
         PyFloat 48.85, PyFloat 2.35, Str ''#FF0000'' :: real cell] ''Ligne''
       = Some (Str ''4'')
   \<and> (\<exists>s. cell_at [''coord_geo'', ''Ligne'', ''Tarif'', ''lat'', ''lon'', ''color'']
        [Lst [PyFloat 48.86, PyFloat 2.34], Str ''nan'', Str ''Gratuit'',
         PyFloat 48.86, PyFloat 2.34, Str ''#FF0000'' :: real cell] ''Ligne'' = Some (Str s))"
proof -
  let ?pd = "pandas_example False"
  let ?recs = "[[(''coord_geo'', Lst [PyFloat 48.85, PyFloat 2.35]), (''ligne'', Str ''4'')],
         [(''coord_geo'', Lst [PyFloat 48.86, PyFloat 2.34]),
          (''tarif_gratuit_payant'', Str ''Gratuit'')]] :: (string \<times> real cell) list list"
  let ?r0 = "[Lst [PyFloat 48.85, PyFloat 2.35], Str ''4'', Str ''Inconnu'',
         PyFloat 48.85, PyFloat 2.35, Str ''#FF0000'' :: real cell]"
  let ?r1 = "[Lst [PyFloat 48.86, PyFloat 2.34], Str ''nan'', Str ''Gratuit'',
         PyFloat 48.86, PyFloat 2.34, Str ''#FF0000'' :: real cell]"
  let ?df = "\<lparr>columns = [''coord_geo'', ''Ligne'', ''Tarif'', ''lat'', ''lon'', ''color''],
             rows = [(0, ?r0), (1, ?r1)]\<rparr>"
  have ok: "clean_data ?pd (DataFrame ?pd ?recs) = Inr ?df"
    by (simp add: frame_defs clean_defs Let_def)
  have ne: "\<not> empty_df (DataFrame ?pd ?recs)" by (simp add: frame_defs)
  have row0: "(0, ?r0) \<in> set (rows ?df)" and row1: "(1, ?r1) \<in> set (rows ?df)" by simp_all
  have cols: "columns (DataFrame ?pd ?recs) = [''coord_geo'', ''ligne'', ''tarif_gratuit_payant'']"
    by (simp add: frame_defs)
  note t0 = cleaned_rows_tarif_ligne[OF ok ne row0]
  note t1 = cleaned_rows_tarif_ligne[OF ok ne row1]
  from t0 have "\<exists>t. cell_at (columns ?df) ?r0 ''Tarif'' = Some t \<and> \<not> isna t
          \<and> t = (case find (\<lambda>k. k = ''tarif_gratuit_payant'' \<or> k = ''Tarif'')
                        (columns (DataFrame ?pd ?recs)) of
                   None \<Rightarrow> Str ''Inconnu''
                 | Some k \<Rightarrow>
                     fillna (Str ''Inconnu'')
                       (stored ?pd (float_column ?pd k) (field (?recs ! 0) k)))"
    by (rule conjunct2[THEN conjunct1])
  then have T: "cell_at (columns ?df) ?r0 ''Tarif'' = Some (fillna (Str ''Inconnu'') Null)"
    unfolding cols by (simp add: field_def stored_def)
  from t0 have "\<exists>x. cell_at (columns ?df) ?r0 ''Ligne'' = Some x
          \<and> (case find (\<lambda>k. k = ''ligne'' \<or> k = ''Ligne'') (columns (DataFrame ?pd ?recs)) of
               None \<Rightarrow> x = Str ''Inconnue''
             | Some k \<Rightarrow>
                 (\<exists>j. x = astype_str ?pd 0 j (stored ?pd (float_column ?pd k) (field (?recs ! 0) k)))
               \<and> (\<forall>s. field (?recs ! 0) k = Str s \<longrightarrow> x = Str s)
               \<and> (if keeps_missing ?pd \<and> isna (field (?recs ! 0) k)
                  then x = Null else \<exists>s. x = Str s))"
    by (rule conjunct2[THEN conjunct2])
  then have L0: "cell_at (columns ?df) ?r0 ''Ligne'' = Some (Str ''4'')"
    unfolding cols by (auto simp: field_def)
  from t1 have "\<exists>x. cell_at (columns ?df) ?r1 ''Ligne'' = Some x
          \<and> (case find (\<lambda>k. k = ''ligne'' \<or> k = ''Ligne'') (columns (DataFrame ?pd ?recs)) of
               None \<Rightarrow> x = Str ''Inconnue''
             | Some k \<Rightarrow>
                 (\<exists>j. x = astype_str ?pd 1 j (stored ?pd (float_column ?pd k) (field (?recs ! 1) k)))
               \<and> (\<forall>s. field (?recs ! 1) k = Str s \<longrightarrow> x = Str s)
               \<and> (if keeps_missing ?pd \<and> isna (field (?recs ! 1) k)
                  then x = Null else \<exists>s. x = Str s))"
    by (rule conjunct2[THEN conjunct2])
  then have L1: "\<exists>s. cell_at (columns ?df) ?r1 ''Ligne'' = Some (Str s)"
    unfolding cols by (auto simp: field_def)
  from ok ne T L0 L1 show ?thesis by simp
qed




text \<open>
  Claim C8 says that on every cleaned table the selection of all the lines offered gives
  the table itself. On the two cleaned tables above line 95 raises \<open>AttributeError\<close>
  and \<open>TypeError\<close> before any line is offered.
\<close>

theorem full_selection_counterexample:
  "clean_data (pandas_example False)
     (DataFrame (pandas_example False)
        [[(''coord_geo'', Lst [PyFloat 48.85, PyFloat 2.35]), (''ligne'', Str ''1''),
          (''Ligne'', Str ''1'')]])
   = Inr \<lparr>columns = [''coord_geo'', ''Ligne'', ''Ligne'', ''lat'', ''lon'', ''Tarif'', ''color''],
          rows = [(0, [Lst [PyFloat 48.85, PyFloat 2.35], Str ''1'', Str ''1'', PyFloat 48.85,
                       PyFloat 2.35, Str ''Inconnu'', Str ''#FF0000''])]\<rparr>
   \<and> df_filtre (\<lambda>dispo. dispo)
        \<lparr>columns = [''coord_geo'', ''Ligne'', ''Ligne'', ''lat'', ''lon'', ''Tarif'', ''color''],
         rows = [(0, [Lst [PyFloat (48.85 :: real), PyFloat 2.35], Str ''1'', Str ''1'',
                      PyFloat 48.85, PyFloat 2.35, Str ''Inconnu'', Str ''#FF0000''])]\<rparr>
     = Inl AttributeError
   \<and> clean_data (pandas_example True)
     (DataFrame (pandas_example True)
        [[(''coord_geo'', Lst [PyFloat 48.85, PyFloat 2.35]), (''ligne'', Str ''1'')],
         [(''coord_geo'', Lst [PyFloat 48.86, PyFloat 2.34])]])
   = Inr \<lparr>columns = [''coord_geo'', ''Ligne'', ''lat'', ''lon'', ''Tarif'', ''color''],
          rows = [(0, [Lst [PyFloat 48.85, PyFloat 2.35], Str ''1'', PyFloat 48.85,
                       PyFloat 2.35, Str ''Inconnu'', Str ''#FF0000'']),
                  (1, [Lst [PyFloat 48.86, PyFloat 2.34], Null, PyFloat 48.86,
                       PyFloat 2.34, Str ''Inconnu'', Str ''#FF0000''])]\<rparr>
   \<and> df_filtre (\<lambda>dispo. dispo)
        \<lparr>columns = [''coord_geo'', ''Ligne'', ''lat'', ''lon'', ''Tarif'', ''color''],
          rows = [(0, [Lst [PyFloat (48.85 :: real), PyFloat 2.35], Str ''1'', PyFloat 48.85,
                       PyFloat 2.35, Str ''Inconnu'', Str ''#FF0000'']),
                  (1, [Lst [PyFloat 48.86, PyFloat 2.34], Null, PyFloat 48.86,
                       PyFloat 2.34, Str ''Inconnu'', Str ''#FF0000''])]\<rparr>
     = Inl TypeError"
  by (simp add: frame_defs clean_defs Let_def df_filtre_def lignes_dispo_def then_do_def)

text \<open>
  Claim C8, amended. For a cleaned table that is empty or has at most one column labelled
  \<open>Ligne\<close>, and that has, where \<^verbatim>\<open>astype(str)\<close> keeps missing values, no
  missing value under \<open>Ligne\<close>, a selection that holds every line offered (the default
  of the sidebar) gives the table itself, index labels included.
\<close>

theorem full_selection_keeps_table:
  assumes ok: "clean_data pd (DataFrame pd recs) = Inr df"
    and one: "empty_df df \<or> count_list (columns df) ''Ligne'' \<le> 1"
    and nomiss: "keeps_missing pd \<longrightarrow>
       (\<forall>(i, r) \<in> set (rows df). cell_at (columns df) r ''Ligne'' \<noteq> Some Null)"
    and full: "\<And>dispo. set (multiselect dispo) = set dispo"
  shows "df_filtre multiselect df = Inr df"
proof (cases "empty_df df \<or> empty_df (DataFrame pd recs)")
  case True
  with ok have "empty_df df" by (auto simp: clean_data_empty)
  then show ?thesis by (simp add: df_filtre_def)
next
  case False
  with one have ne: "\<not> empty_df (DataFrame pd recs)"
    and one': "count_list (columns df) ''Ligne'' \<le> 1" by auto
  from Ligne_column_text[OF ok ne nomiss] obtain col
    where col: "getitem df ''Ligne'' = Inr col" "list_all is_text col"
      and len: "length col = length (rows df)" by blast
  from lignes_dispo_text[OF one' col] obtain dispo
    where dispo: "lignes_dispo df = Inr dispo" "set dispo = set col" by blast
  have "list_all (\<lambda>b. b) (isin col (multiselect dispo))"
    by (simp add: isin_def list_all_iff full dispo(2))
  moreover have "length (isin col (multiselect dispo)) = length (rows df)"
    by (simp add: isin_def len)
  ultimately have "boolean_index df (isin col (multiselect dispo)) = df"
    by (simp add: boolean_index_all)
  then show ?thesis by (simp add: df_filtre_def then_do_def dispo(1) col(1) Let_def)
qed

theorem full_selection_keeps_table_witness:
  "clean_data (pandas_example True)
     (DataFrame (pandas_example True)
        [[(''coord_geo'', Lst [PyFloat 48.85, PyFloat 2.35]), (''ligne'', Str ''4'')],
         [(''coord_geo'', Lst [PyFloat 48.86, PyFloat 2.34]), (''ligne'', Str ''1'')],
         [(''coord_geo'', Null), (''ligne'', Str ''7'')]])
     = Inr \<lparr>columns = [''coord_geo'', ''Ligne'', ''lat'', ''lon'', ''Tarif'', ''color''],
            rows = [(0, [Lst [PyFloat 48.85, PyFloat 2.35], Str ''4'', PyFloat 48.85,
                         PyFloat 2.35, Str ''Inconnu'', Str ''#FF0000'']),
                    (1, [Lst [PyFloat 48.86, PyFloat 2.34], Str ''1'', PyFloat 48.86,
                         PyFloat 2.34, Str ''Inconnu'', Str ''#FF0000''])]\<rparr>
   \<and> count_list [''coord_geo'', ''Ligne'', ''lat'', ''lon'', ''Tarif'', ''color''] ''Ligne'' = 1
   \<and> df_filtre (\<lambda>dispo. dispo)
        \<lparr>columns = [''coord_geo'', ''Ligne'', ''lat'', ''lon'', ''Tarif'', ''color''],
         rows = [(0, [Lst [PyFloat (48.85 :: real), PyFloat 2.35], Str ''4'', PyFloat 48.85,
                      PyFloat 2.35, Str ''Inconnu'', Str ''#FF0000'']),
                 (1, [Lst [PyFloat 48.86, PyFloat 2.34], Str ''1'', PyFloat 48.86,
                      PyFloat 2.34, Str ''Inconnu'', Str ''#FF0000''])]\<rparr>
     = Inr \<lparr>columns = [''coord_geo'', ''Ligne'', ''lat'', ''lon'', ''Tarif'', ''color''],
            rows = [(0, [Lst [PyFloat 48.85, PyFloat 2.35], Str ''4'', PyFloat 48.85,
                         PyFloat 2.35, Str ''Inconnu'', Str ''#FF0000'']),
                    (1, [Lst [PyFloat 48.86, PyFloat 2.34], Str ''1'', PyFloat 48.86,
                         PyFloat 2.34, Str ''Inconnu'', Str ''#FF0000''])]\<rparr>"
proof -
  let ?pd = "pandas_example True"
  let ?recs = "[[(''coord_geo'', Lst [PyFloat 48.85, PyFloat 2.35]), (''ligne'', Str ''4'')],
         [(''coord_geo'', Lst [PyFloat 48.86, PyFloat 2.34]), (''ligne'', Str ''1'')],
         [(''coord_geo'', Null), (''ligne'', Str ''7'')]]
      :: (string \<times> real cell) list list"
  let ?df = "\<lparr>columns = [''coord_geo'', ''Ligne'', ''lat'', ''lon'', ''Tarif'', ''color''],
         rows = [(0, [Lst [PyFloat (48.85 :: real), PyFloat 2.35], Str ''4'', PyFloat 48.85,
                      PyFloat 2.35, Str ''Inconnu'', Str ''#FF0000'']),
                 (1, [Lst [PyFloat 48.86, PyFloat 2.34], Str ''1'', PyFloat 48.86,
                      PyFloat 2.34, Str ''Inconnu'', Str ''#FF0000''])]\<rparr>"
  have ok: "clean_data ?pd (DataFrame ?pd ?recs) = Inr ?df"
    by (simp add: frame_defs clean_defs Let_def)
  have one: "empty_df ?df \<or> count_list (columns ?df) ''Ligne'' \<le> 1" by simp
  have nomiss: "keeps_missing ?pd \<longrightarrow>
       (\<forall>(i, r) \<in> set (rows ?df). cell_at (columns ?df) r ''Ligne'' \<noteq> Some Null)"
    by (simp add: cell_at_def)
  from full_selection_keeps_table[OF ok one nomiss, of "\<lambda>dispo. dispo"] ok show ?thesis by simp
qed

text \<open>
  Claim C9 says that the fetcher returns an empty collection exactly when the request
  does not succeed. It also returns one, and shows no message, when the request succeeds
  with status 200 and the body holds no record.
\<close>

theorem empty_on_success_counterexample:
  "load_data_from_api (pandas_example False) (\<lambda>xs. Inl TypeError)
     (Inr \<lparr>status_code = 200, json = Inr (Dict [(''records'', Lst [])])\<rparr>)
   = ([], no_frame)"
  by (simp add: load_data_from_api_def try_load_def then_do_def DataFrame_of_def
      DataFrame_def unique_def no_frame_def)

text \<open>
  Claim C9, amended. An exception of \<^verbatim>\<open>requests.get\<close>, of \<^verbatim>\<open>json()\<close> or of
  any later line of the \<^verbatim>\<open>try\<close> gives the technical-error message and the empty
  table; a status other than 200 gives the connection-error message and the empty table;
  status 200 with a body whose \<open>records\<close> all have an object under \<open>fields\<close> gives,
  with no message, the table of these objects. Whenever a message is shown the table is
  empty; the converse does not hold.
\<close>

theorem load_data_from_api_outcomes:
  "load_data_from_api pd other (Inl e) = ([Erreur_technique e], no_frame)
   \<and> (status_code r1 \<noteq> 200 \<longrightarrow>
        load_data_from_api pd other (Inr r1) = ([Erreur_connexion], no_frame))
   \<and> (status_code r2 = 200 \<longrightarrow> json r2 = Inl e2 \<longrightarrow>
        load_data_from_api pd other (Inr r2) = ([Erreur_technique e2], no_frame))
   \<and> (try_load pd other get = Inl e3 \<longrightarrow>
        load_data_from_api pd other get = ([Erreur_technique e3], no_frame))
   \<and> (status_code r3 = 200 \<longrightarrow> json r3 = Inr (Dict body) \<longrightarrow>
        map_of body ''records'' = Some (Lst rs) \<longrightarrow>
        map fields_of rs = map (\<lambda>f. Inr (Dict f)) recs \<longrightarrow>
        load_data_from_api pd other (Inr r3) = ([], DataFrame pd recs))
   \<and> (fst (load_data_from_api pd other get) = []
        \<or> snd (load_data_from_api pd other get) = no_frame)"
proof (intro conjI impI)
  show "load_data_from_api pd other (Inl e) = ([Erreur_technique e], no_frame)"
    by (simp add: load_data_from_api_def try_load_def then_do_def)
  show "load_data_from_api pd other (Inr r1) = ([Erreur_connexion], no_frame)"
    if "status_code r1 \<noteq> 200"
    using that by (simp add: load_data_from_api_def try_load_def then_do_def)
  show "load_data_from_api pd other (Inr r2) = ([Erreur_technique e2], no_frame)"
    if "status_code r2 = 200" "json r2 = Inl e2"
    using that by (simp add: load_data_from_api_def try_load_def then_do_def)
  show "load_data_from_api pd other get = ([Erreur_technique e3], no_frame)"
    if "try_load pd other get = Inl e3"
    using that by (simp add: load_data_from_api_def)
  show "load_data_from_api pd other (Inr r3) = ([], DataFrame pd recs)"
    if "status_code r3 = 200" "json r3 = Inr (Dict body)"
      "map_of body ''records'' = Some (Lst rs)"
      "map fields_of rs = map (\<lambda>f. Inr (Dict f)) recs"
  proof -
    have "clean_records (Lst rs) = Inr (map Dict recs)"
      using that(4) by (simp add: comprehension_fields)
    then show ?thesis using that(1-3)
      by (simp add: load_data_from_api_def try_load_def then_do_def DataFrame_of_records)
  qed
  show "fst (load_data_from_api pd other get) = []
        \<or> snd (load_data_from_api pd other get) = no_frame"
    by (auto simp: load_data_from_api_def try_load_def then_do_def split: sum.splits if_splits)
qed

theorem load_data_from_api_outcomes_witness:
  "load_data_from_api (pandas_example False) (\<lambda>xs. Inl TypeError)
       (Inl (OtherError ''ConnectionError''))
     = ([Erreur_technique (OtherError ''ConnectionError'')], no_frame)
   \<and> load_data_from_api (pandas_example False) (\<lambda>xs. Inl TypeError)
        (Inr \<lparr>status_code = 500, json = Inl (OtherError ''JSONDecodeError'')\<rparr>)
     = ([Erreur_connexion], no_frame)
   \<and> load_data_from_api (pandas_example False) (\<lambda>xs. Inl TypeError)
        (Inr \<lparr>status_code = 200, json = Inl (OtherError ''JSONDecodeError'')\<rparr>)
     = ([Erreur_technique (OtherError ''JSONDecodeError'')], no_frame)
   \<and> load_data_from_api (pandas_example False) (\<lambda>xs. Inl TypeError)
        (Inr \<lparr>status_code = 200, json = Inr (Dict [(''records'', Lst [Dict []])])\<rparr>)
     = ([Erreur_technique (KeyError [''fields''])], no_frame)
   \<and> load_data_from_api (pandas_example False) (\<lambda>xs. Inl TypeError)
        (Inr \<lparr>status_code = 200,
              json = Inr (Dict [(''records'',
                Lst [Dict [(''fields'', Dict [(''ligne'', Str ''1'')])],
                     Dict [(''fields'', Dict [(''ligne'', Str ''4''),
                                              (''coord_geo'', Lst [PyFloat 48.85, PyFloat 2.35])])]])])\<rparr>)
     = ([], DataFrame (pandas_example False)
              [[(''ligne'', Str ''1'')],
               [(''ligne'', Str ''4''), (''coord_geo'', Lst [PyFloat 48.85, PyFloat 2.35])]])"
proof -
  let ?pd = "pandas_example False"
  let ?other = "\<lambda>xs :: real cell list. (Inl TypeError :: error + real dataframe)"
  let ?bad = "Inl (OtherError ''JSONDecodeError'') :: error + real cell"
  let ?rs = "[Dict [(''fields'', Dict [(''ligne'', Str ''1'')])],
              Dict [(''fields'', Dict [(''ligne'', Str ''4''),
                                       (''coord_geo'', Lst [PyFloat (48.85 :: real), PyFloat 2.35])])]]"
  let ?recs = "[[(''ligne'', Str ''1'')],
                [(''ligne'', Str ''4''), (''coord_geo'', Lst [PyFloat (48.85 :: real), PyFloat 2.35])]]"
  have t: "try_load ?pd ?other
             (Inr \<lparr>status_code = 200, json = Inr (Dict [(''records'', Lst [Dict []])])\<rparr>)
             = Inl (KeyError [''fields''])"
    by (simp add: try_load_def then_do_def)
  have f: "map fields_of ?rs = map (\<lambda>f. Inr (Dict f)) ?recs" by simp
  from load_data_from_api_outcomes
    [of ?pd ?other "OtherError ''ConnectionError''"
        "\<lparr>status_code = 500, json = ?bad\<rparr>"
        "\<lparr>status_code = 200, json = ?bad\<rparr>" "OtherError ''JSONDecodeError''"
        "Inr \<lparr>status_code = 200, json = Inr (Dict [(''records'', Lst [Dict []])])\<rparr>"
        "KeyError [''fields'']"
        "\<lparr>status_code = 200, json = Inr (Dict [(''records'', Lst ?rs)])\<rparr>"
        "[(''records'', Lst ?rs)]" ?rs ?recs] t f
  show ?thesis by simp
qed

text \<open>
  Claim C10. \<^verbatim>\<open>clean_data\<close> leaves the table it is given as it was: after the call
  the store holds the same table at the reference passed in, and every table that existed
  before the call is unchanged.
\<close>

theorem clean_data_obj_keeps_argument:
  assumes "p < length h"
  shows "snd (clean_data_obj pd p h) ! p = h ! p
       \<and> take (length h) (snd (clean_data_obj pd p h)) = h"
  using assms
  by (auto simp: clean_data_obj_def alloc_def in_place_def Let_def nth_append
      split: sum.splits)

theorem clean_data_obj_keeps_argument_witness:
  "(0::nat) < length [DataFrame (pandas_example False)
                         [[(''coord_geo'', Lst [PyFloat 48.85, PyFloat 2.35])]]]
   \<and> snd (clean_data_obj (pandas_example False) 0
            [DataFrame (pandas_example False)
               [[(''coord_geo'', Lst [PyFloat 48.85, PyFloat 2.35])]]]) ! 0
       = \<lparr>columns = [''coord_geo''], rows = [(0, [Lst [PyFloat 48.85, PyFloat 2.35]])]\<rparr>
   \<and> fst (clean_data_obj (pandas_example False) 0
            [DataFrame (pandas_example False)
               [[(''coord_geo'', Lst [PyFloat 48.85, PyFloat 2.35])]]]) = Inr 3"
proof -
  let ?pd = "pandas_example False"
  let ?h = "[DataFrame ?pd [[(''coord_geo'', Lst [PyFloat 48.85, PyFloat 2.35])]]]"
  have p: "(0::nat) < length ?h" by simp
  have r: "fst (clean_data_obj ?pd 0 ?h) = Inr 3"
    by (simp add: clean_data_obj_def alloc_def in_place_def frame_defs clean_defs Let_def)
  from clean_data_obj_keeps_argument[OF p, of ?pd] r show ?thesis
    by (simp add: frame_defs)
qed

end
